theory Spec2Isabelle
  imports Complex_Main "HOL-Library.Log_Nat"
begin

section \<open>Data model of the session server\<close>

text \<open>
  The server keeps the game state of a session as a JSON document in the Postgres table
  \<open>sessions\<close> and in the Redis key \<open>session:<id>:state\<close>. A JSON field that is
  absent, \<open>undefined\<close> or \<open>null\<close> is \<open>None\<close>. Times are milliseconds
  (\<open>Date.now()\<close>, \<open>NOW()\<close>), one clock for the process, Postgres and Redis.
\<close>

type_synonym session_id = string
type_synonym user_id = string
type_synonym time = int

record game =
  name :: string
  genre :: string
  platform :: string
  addedBy :: "user_id option"

record spin_data =
  startTime :: time
  duration :: real
  finalRotation :: real
  baseRotation :: real
  preCalculatedWinner :: "game option"

text \<open>
  \<open>userGameCounts\<close> is a plain object keyed by member id, and a member chooses their own
  id (\<open>message.userId\<close> of \<open>join_session\<close>). The server stores numbers in it and, for a
  member whose id names a method of \<open>Object.prototype\<close>, strings:
  \<open>Function_text f k\<close> is the string \<open>function f() { [native code] }\<close> followed by \<open>k\<close>
  characters \<open>1\<close>.
\<close>

datatype count_value = Number int | Function_text string nat

record game_state =
  selectedGames :: "game list"
  isSpinning :: bool
  winner :: "game option"
  spinData :: "spin_data option"
  gameLimit :: "int option"
  userGameCounts :: "(user_id \<rightharpoonup> count_value) option"

record session_row =
  game_state :: game_state
  created_at :: time
  updated_at :: time
  expires_at :: time

text \<open>
  \<open>sessions\<close> is the Postgres table (primary key \<open>id\<close>); \<open>session_users\<close> gives the
  \<open>user_id\<close> column of the rows of a session in the order of \<open>joined_at\<close>;
  \<open>state_cache\<close> holds the Redis state keys with the instant at which they expire;
  \<open>counters\<close> holds the Redis integer keys, with their expiry when one is set;
  \<open>connections\<close> is the process's map from session id to its connected users.
\<close>

record world =
  sessions :: "session_id \<rightharpoonup> session_row"
  session_users :: "session_id \<Rightarrow> user_id list"
  state_cache :: "session_id \<rightharpoonup> (game_state \<times> time)"
  counters :: "string \<rightharpoonup> (int \<times> time option)"
  connections :: "session_id \<rightharpoonup> user_id set"

datatype server_message =
    Session_created session_id
  | Game_state_update game_state
  | Error_message string
  | Heartbeat_ack

text \<open>
  What a handler does: the stores afterwards, the messages sent on the requester's own
  socket, the calls of \<open>broadcastToSession\<close>, and the timers set (delay and session).
  A handler is one step: its \<open>await\<close>s follow one another at one instant \<open>now\<close>, and no
  other handler runs in between.
\<close>

record effects =
  world_after :: world
  replies :: "server_message list"
  broadcasts :: "(session_id \<times> server_message) list"
  timers :: "(real \<times> session_id) list"

definition no_effects :: "world \<Rightarrow> effects" where
  "no_effects w = \<lparr>world_after = w, replies = [], broadcasts = [], timers = []\<rparr>"

definition reply_only :: "world \<Rightarrow> server_message \<Rightarrow> effects" where
  "reply_only w m = \<lparr>world_after = w, replies = [m], broadcasts = [], timers = []\<rparr>"

section \<open>database.js and redis.js\<close>

definition default_game_state :: game_state where
  "default_game_state =
     \<lparr>selectedGames = [], isSpinning = False, winner = None, spinData = None,
      gameLimit = None, userGameCounts = None\<rparr>"

definition hours24 :: time where
  "hours24 = 86400000"

datatype db_error = unique_violation

definition createSession :: "world \<Rightarrow> time \<Rightarrow> session_id \<Rightarrow> db_error + world" where
  "createSession w now sid =
     (case sessions w sid of
        Some _ \<Rightarrow> Inl unique_violation
      | None \<Rightarrow>
          Inr (w\<lparr>sessions := (sessions w)(sid \<mapsto>
                 \<lparr>game_state = default_game_state, created_at = now, updated_at = now,
                  expires_at = now + hours24\<rparr>)\<rparr>))"

definition getSession :: "world \<Rightarrow> time \<Rightarrow> session_id \<Rightarrow> session_row option" where
  "getSession w now sid =
     (case sessions w sid of
        None \<Rightarrow> None
      | Some row \<Rightarrow> if expires_at row > now then Some row else None)"

definition updateSessionGameState :: "world \<Rightarrow> time \<Rightarrow> session_id \<Rightarrow> game_state \<Rightarrow> world" where
  "updateSessionGameState w now sid gs =
     (case sessions w sid of
        None \<Rightarrow> w
      | Some row \<Rightarrow>
          w\<lparr>sessions := (sessions w)(sid \<mapsto> row\<lparr>game_state := gs, updated_at := now\<rparr>)\<rparr>)"

definition cacheSessionState :: "world \<Rightarrow> time \<Rightarrow> session_id \<Rightarrow> game_state \<Rightarrow> world" where
  "cacheSessionState w now sid gs =
     w\<lparr>state_cache := (state_cache w)(sid \<mapsto> (gs, now + 300 * 1000))\<rparr>"

definition getCachedSessionState :: "world \<Rightarrow> time \<Rightarrow> session_id \<Rightarrow> game_state option" where
  "getCachedSessionState w now sid =
     (case state_cache w sid of
        None \<Rightarrow> None
      | Some (gs, expiry) \<Rightarrow> if now < expiry then Some gs else None)"

definition getSessionUsers :: "world \<Rightarrow> session_id \<Rightarrow> user_id list" where
  "getSessionUsers w sid = session_users w sid"

section \<open>The server's helpers\<close>

definition updateGameStateAndBroadcast :: "world \<Rightarrow> time \<Rightarrow> session_id \<Rightarrow> game_state \<Rightarrow> effects" where
  "updateGameStateAndBroadcast w now sid gs =
     \<lparr>world_after = cacheSessionState (updateSessionGameState w now sid gs) now sid gs,
      replies = [],
      broadcasts = [(sid, Game_state_update gs)],
      timers = []\<rparr>"

text \<open>\<open>await getCachedSessionState(id) || session.game_state\<close>\<close>

definition current_game_state :: "world \<Rightarrow> time \<Rightarrow> session_id \<Rightarrow> session_row \<Rightarrow> game_state" where
  "current_game_state w now sid session =
     (case getCachedSessionState w now sid of Some gs \<Rightarrow> gs | None \<Rightarrow> game_state session)"

section \<open>Completion of a spin\<close>

text \<open>
  The callback given to \<open>setTimeout\<close> by \<open>start_spin\<close>. It closes over the session id
  only; it reads the state again when it fires.
\<close>

definition complete_state :: "game_state \<Rightarrow> game_state" where
  "complete_state gs =
     gs\<lparr>isSpinning := False,
        winner := (case spinData gs of None \<Rightarrow> None | Some sd \<Rightarrow> preCalculatedWinner sd),
        spinData := None\<rparr>"

definition spin_completion :: "world \<Rightarrow> time \<Rightarrow> session_id \<Rightarrow> effects" where
  "spin_completion w now sid =
     (case getSession w now sid of
        None \<Rightarrow> no_effects w
      | Some currentSession \<Rightarrow>
          (let currentGameState = current_game_state w now sid currentSession in
           if isSpinning currentGameState \<and> spinData currentGameState \<noteq> None
           then updateGameStateAndBroadcast w now sid (complete_state currentGameState)
           else no_effects w))"

section \<open>JavaScript numbers\<close>

text \<open>
  A JavaScript number is an IEEE 754 binary64 value; each arithmetic operation returns the
  exact result rounded to the nearest representable value, ties to the even significand.
  \<open>fl\<close> is that rounding on the reals, with 53 significant bits and an unbounded exponent:
  overflow to infinity and gradual underflow are left out (no operation of \<open>start_spin\<close>
  comes near either), as are signed zeros and NaN.
\<close>

definition expo :: "real \<Rightarrow> int" where
  "expo x =
     (if 1 \<le> \<bar>x\<bar> then int (floorlog 2 (nat \<lfloor>\<bar>x\<bar>\<rfloor>)) - 1
      else - int (floorlog 2 (nat \<lceil>1 / \<bar>x\<bar>\<rceil> - 1)))"

definition round_half_even :: "real \<Rightarrow> int" where
  "round_half_even x =
     (let f = \<lfloor>x\<rfloor>; d = x - of_int f in
      if d < 1 / 2 then f
      else if 1 / 2 < d then f + 1
      else if even f then f else f + 1)"

definition fl :: "real \<Rightarrow> real" where
  "fl x =
     (if x = 0 then 0
      else (let ulp = 2 powi (expo x - 52) in of_int (round_half_even (x / ulp)) * ulp))"

definition js_add :: "real \<Rightarrow> real \<Rightarrow> real" where
  "js_add x y = fl (x + y)"

definition js_sub :: "real \<Rightarrow> real \<Rightarrow> real" where
  "js_sub x y = fl (x - y)"

definition js_mul :: "real \<Rightarrow> real \<Rightarrow> real" where
  "js_mul x y = fl (x * y)"

definition js_div :: "real \<Rightarrow> real \<Rightarrow> real" where
  "js_div x y = fl (x / y)"

text \<open>\<open>Math.PI\<close> is the binary64 value nearest to \<open>\<pi>\<close>, \<open>0x1.921fb54442d18p+1\<close>.\<close>

definition Math_PI :: real where
  "Math_PI = 884279719003555 / 281474976710656"

section \<open>Rendering integers\<close>

definition digit_char :: "nat \<Rightarrow> char" where
  "digit_char d = ''0123456789'' ! d"

function show_nat :: "nat \<Rightarrow> string" where
  "show_nat n = (if n < 10 then [digit_char n] else show_nat (n div 10) @ [digit_char (n mod 10)])"
  by pat_completeness auto
termination
  by (relation "measure (\<lambda>n. n)") auto

declare show_nat.simps [simp del]

definition show_int :: "int \<Rightarrow> string" where
  "show_int i = (if i < 0 then ''-'' @ show_nat (nat (- i)) else show_nat (nat i))"

section \<open>The \<open>game_action\<close> handler\<close>

text \<open>
  \<open>start_spin\<close> calls \<open>Math.random()\<close> up to three times and sorts with
  \<open>String.prototype.localeCompare\<close>; both come from the environment.
\<close>

record spin_env =
  localeCompare :: "string \<Rightarrow> string \<Rightarrow> int"
  random_duration :: real
  random_index :: real
  random_turns :: real

datatype action =
    Add_game game
  | Remove_game string
  | Clear_all_games
  | Start_spin
  | Unknown_action

definition native_code :: "string \<Rightarrow> string" where
  "native_code f = ''function '' @ f @ ''() { [native code] }''"

definition string_of :: "count_value \<Rightarrow> string" where
  "string_of v =
     (case v of
        Number n \<Rightarrow> show_int n
      | Function_text f k \<Rightarrow> native_code f @ replicate k (CHR ''1''))"

definition counts :: "game_state \<Rightarrow> (user_id \<rightharpoonup> count_value)" where
  "counts gs = (case userGameCounts gs of None \<Rightarrow> Map.empty | Some m \<Rightarrow> m)"

definition ensure_counts :: "game_state \<Rightarrow> game_state" where
  "ensure_counts gs = gs\<lparr>userGameCounts := Some (counts gs)\<rparr>"

text \<open>
  What \<open>userGameCounts[u]\<close> evaluates to: the object's own property when it has one;
  otherwise the property inherited from \<open>Object.prototype\<close>, which is a method for eleven
  names (\<open>constructor\<close> is the function \<open>Object\<close>) and the prototype object itself for
  \<open>__proto__\<close>; otherwise \<open>undefined\<close>.
\<close>

datatype js_value = Own count_value | Method string | Prototype | Undefined

definition prototype_methods :: "string list" where
  "prototype_methods =
     [''constructor'', ''__defineGetter__'', ''__defineSetter__'', ''hasOwnProperty'',
      ''__lookupGetter__'', ''__lookupSetter__'', ''isPrototypeOf'', ''propertyIsEnumerable'',
      ''toString'', ''valueOf'', ''toLocaleString'']"

definition function_name :: "string \<Rightarrow> string" where
  "function_name key = (if key = ''constructor'' then ''Object'' else key)"

definition read_count :: "(user_id \<rightharpoonup> count_value) \<Rightarrow> user_id \<Rightarrow> js_value" where
  "read_count m u =
     (case m u of
        Some v \<Rightarrow> Own v
      | None \<Rightarrow>
          if u \<in> set prototype_methods then Method (function_name u)
          else if u = ''__proto__'' then Prototype
          else Undefined)"

text \<open>The member ids for which \<open>Object.prototype\<close> has a property.\<close>

definition inherited_key :: "user_id \<Rightarrow> bool" where
  "inherited_key u \<longleftrightarrow> u \<in> set prototype_methods \<or> u = ''__proto__''"


text \<open>
  \<open>gameState.userGameCounts[u] || 0\<close>. Of the values above only \<open>undefined\<close> and the
  number 0 are falsy.
\<close>

definition or_zero :: "js_value \<Rightarrow> js_value" where
  "or_zero v = (case v of Undefined \<Rightarrow> Own (Number 0) | _ \<Rightarrow> v)"

text \<open>
  \<open>v >= l\<close> for a number \<open>l\<close> (and likewise \<open>v > l\<close>). A value that is not a number
  is converted to one first, an object through its \<open>toString\<close>. Neither the source text
  of a function, with or without characters appended, nor \<open>[object Object]\<close> is a
  numeric literal, so the conversion gives \<open>NaN\<close>, as it does for \<open>undefined\<close>, and the
  comparison is false.
\<close>

definition at_least :: "js_value \<Rightarrow> int \<Rightarrow> bool" where
  "at_least v l = (case v of Own (Number n) \<Rightarrow> n \<ge> l | _ \<Rightarrow> False)"

text \<open>\<open>gameState.gameLimit && currentUserCount >= gameState.gameLimit\<close>\<close>

definition limit_reached :: "int option \<Rightarrow> js_value \<Rightarrow> bool" where
  "limit_reached limit currentUserCount =
     (case limit of None \<Rightarrow> False | Some l \<Rightarrow> l \<noteq> 0 \<and> at_least currentUserCount l)"

definition limit_message :: "int \<Rightarrow> string" where
  "limit_message l =
     ''You can only submit '' @ show_int l @ '' game'' @ (if l = 1 then [] else ''s'') @ ''.''"

definition has_name :: "game list \<Rightarrow> string \<Rightarrow> bool" where
  "has_name gs n = (find (\<lambda>g. name g = n) gs \<noteq> None)"

text \<open>
  \<open>userGameCounts[u] = (userGameCounts[u] || 0) + 1\<close>. Adding 1 to a number gives the next
  number; adding 1 to a string, or to an object (converted through its \<open>toString\<close>),
  appends the character \<open>1\<close>; \<open>undefined || 0\<close> is 0. The assignment creates or
  overwrites the object's own property, except for \<open>__proto__\<close> when the object has no
  such property of its own: that assignment calls the setter inherited from
  \<open>Object.prototype\<close>, which ignores a string.
\<close>

definition increment_count :: "(user_id \<rightharpoonup> count_value) \<Rightarrow> user_id \<Rightarrow> (user_id \<rightharpoonup> count_value)" where
  "increment_count m u =
     (case read_count m u of
        Own (Number n) \<Rightarrow> m(u \<mapsto> Number (n + 1))
      | Own (Function_text f k) \<Rightarrow> m(u \<mapsto> Function_text f (k + 1))
      | Method f \<Rightarrow> m(u \<mapsto> Function_text f 1)
      | Prototype \<Rightarrow> m
      | Undefined \<Rightarrow> m(u \<mapsto> Number 1))"

definition add_game :: "world \<Rightarrow> time \<Rightarrow> session_id \<Rightarrow> user_id \<Rightarrow> game_state \<Rightarrow> game \<Rightarrow> effects" where
  "add_game w now sid uid gameState g =
     (if \<not> has_name (selectedGames gameState) (name g) then
        (let currentUserCount = or_zero (read_count (counts gameState) uid) in
         if limit_reached (gameLimit gameState) currentUserCount
         then reply_only w (Error_message (limit_message (the (gameLimit gameState))))
         else
           updateGameStateAndBroadcast w now sid
             (gameState\<lparr>selectedGames := selectedGames gameState @ [g\<lparr>addedBy := Some uid\<rparr>],
                        userGameCounts := Some (increment_count (counts gameState) uid)\<rparr>))
      else no_effects w)"

text \<open>
  \<open>if (userGameCounts[u] > 0) userGameCounts[u]--\<close>: only a positive number passes the
  test, and it is then the object's own property.
\<close>

definition decrement_count :: "(user_id \<rightharpoonup> count_value) \<Rightarrow> user_id \<Rightarrow> (user_id \<rightharpoonup> count_value)" where
  "decrement_count m u =
     (case read_count m u of
        Own (Number n) \<Rightarrow> if n > 0 then m(u \<mapsto> Number (n - 1)) else m
      | _ \<Rightarrow> m)"

definition remove_game :: "world \<Rightarrow> time \<Rightarrow> session_id \<Rightarrow> game_state \<Rightarrow> string \<Rightarrow> effects" where
  "remove_game w now sid gameState gameName =
     (let m = (case find (\<lambda>g. name g = gameName) (selectedGames gameState) of
                 None \<Rightarrow> counts gameState
               | Some gameToRemove \<Rightarrow>
                   (case addedBy gameToRemove of
                      None \<Rightarrow> counts gameState
                    | Some u \<Rightarrow> if u = [] then counts gameState
                               else decrement_count (counts gameState) u))
      in updateGameStateAndBroadcast w now sid
           (gameState\<lparr>selectedGames := filter (\<lambda>g. name g \<noteq> gameName) (selectedGames gameState),
                      userGameCounts := Some m\<rparr>))"

definition clear_all_games :: "world \<Rightarrow> time \<Rightarrow> session_id \<Rightarrow> game_state \<Rightarrow> effects" where
  "clear_all_games w now sid gameState =
     updateGameStateAndBroadcast w now sid
       (gameState\<lparr>selectedGames := [], winner := None, isSpinning := False, spinData := None,
                  userGameCounts := Some Map.empty\<rparr>)"

subsection \<open>\<open>start_spin\<close>\<close>

fun insert_game :: "(string \<Rightarrow> string \<Rightarrow> int) \<Rightarrow> game \<Rightarrow> game list \<Rightarrow> game list" where
  "insert_game cmp g [] = [g]"
| "insert_game cmp g (h # hs) =
     (if cmp (name g) (name h) \<le> 0 then g # h # hs else h # insert_game cmp g hs)"

text \<open>\<open>[...selectedGames].sort((a, b) => a.name.localeCompare(b.name))\<close>; the sort is stable.\<close>

definition sort_games :: "(string \<Rightarrow> string \<Rightarrow> int) \<Rightarrow> game list \<Rightarrow> game list" where
  "sort_games cmp gs = foldr (insert_game cmp) gs []"

definition spinDuration :: "spin_env \<Rightarrow> real" where
  "spinDuration env = js_add 3000 (js_mul (random_duration env) 2000)"

text \<open>\<open>Math.floor(Math.random() * games.length)\<close>; \<open>Math.random()\<close> is never negative.\<close>

definition winningIndex :: "spin_env \<Rightarrow> nat \<Rightarrow> nat" where
  "winningIndex env n = nat \<lfloor>js_mul (random_index env) (real n)\<rfloor>"

definition anglePerSection :: "nat \<Rightarrow> real" where
  "anglePerSection n = js_div (js_mul 2 Math_PI) (real n)"

definition baseRotation_of :: "nat \<Rightarrow> nat \<Rightarrow> real" where
  "baseRotation_of n i =
     js_sub (js_sub (js_div (- Math_PI) 2) (js_mul (real i) (anglePerSection n)))
            (js_div (anglePerSection n) 2)"

definition numExtraRotations :: "spin_env \<Rightarrow> int" where
  "numExtraRotations env = \<lfloor>js_add 10 (js_mul (random_turns env) 5)\<rfloor>"

definition finalRotation_of :: "spin_env \<Rightarrow> nat \<Rightarrow> nat \<Rightarrow> real" where
  "finalRotation_of env n i =
     js_add (baseRotation_of n i) (js_mul (js_mul (of_int (numExtraRotations env)) 2) Math_PI)"

definition nth_opt :: "'a list \<Rightarrow> nat \<Rightarrow> 'a option" where
  "nth_opt xs i = (if i < length xs then Some (xs ! i) else None)"

definition make_spin_data :: "spin_env \<Rightarrow> time \<Rightarrow> game list \<Rightarrow> spin_data" where
  "make_spin_data env now selected =
     (let games = sort_games (localeCompare env) selected in
      if length games > 0 then
        (let i = winningIndex env (length games) in
         \<lparr>startTime = now, duration = spinDuration env,
          finalRotation = finalRotation_of env (length games) i,
          baseRotation = baseRotation_of (length games) i,
          preCalculatedWinner = nth_opt games i\<rparr>)
      else
        \<lparr>startTime = now, duration = spinDuration env, finalRotation = 0, baseRotation = 0,
         preCalculatedWinner = None\<rparr>)"

definition start_spin :: "spin_env \<Rightarrow> world \<Rightarrow> time \<Rightarrow> session_id \<Rightarrow> game_state \<Rightarrow> effects" where
  "start_spin env w now sid gameState =
     (if isSpinning gameState then no_effects w
      else
        (let gs' = gameState\<lparr>isSpinning := True, winner := None,
                             spinData := Some (make_spin_data env now (selectedGames gameState))\<rparr>
         in (updateGameStateAndBroadcast w now sid gs')\<lparr>timers := [(spinDuration env, sid)]\<rparr>))"

text \<open>Lines 239 to 257: the state a game action works on.\<close>

definition fetch_game_state :: "world \<Rightarrow> time \<Rightarrow> session_id \<Rightarrow> game_state option" where
  "fetch_game_state w now sid =
     (case getSession w now sid of
        None \<Rightarrow> None
      | Some session \<Rightarrow> Some (ensure_counts (current_game_state w now sid session)))"

text \<open>
  \<open>conn\<close> is the connection's \<open>currentSessionId\<close> and \<open>currentUserId\<close>, set together by
  \<open>join_session\<close>. The updates of \<open>last_seen\<close> and of the presence key that end the
  handler touch no game state and are left out.
\<close>

definition game_action ::
  "spin_env \<Rightarrow> world \<Rightarrow> time \<Rightarrow> (session_id \<times> user_id) option \<Rightarrow> action \<Rightarrow> effects" where
  "game_action env w now conn act =
     (case conn of
        None \<Rightarrow> reply_only w (Error_message ''Not in a session'')
      | Some (sid, uid) \<Rightarrow>
          (case fetch_game_state w now sid of
             None \<Rightarrow> reply_only w (Error_message ''Session not found'')
           | Some gameState \<Rightarrow>
               (case act of
                  Add_game g \<Rightarrow> add_game w now sid uid gameState g
                | Remove_game n \<Rightarrow> remove_game w now sid gameState n
                | Clear_all_games \<Rightarrow> clear_all_games w now sid gameState
                | Start_spin \<Rightarrow> start_spin env w now sid gameState
                | Unknown_action \<Rightarrow> no_effects w)))"

section \<open>The \<open>set_game_limit\<close> handler\<close>

definition set_game_limit ::
  "world \<Rightarrow> time \<Rightarrow> (session_id \<times> user_id) option \<Rightarrow> int option \<Rightarrow> effects" where
  "set_game_limit w now conn limit =
     (case conn of
        None \<Rightarrow> no_effects w
      | Some (sid, uid) \<Rightarrow>
          (let sessionUsers = getSessionUsers w sid;
               isCreator = (length sessionUsers > 0 \<and> hd sessionUsers = uid)
           in if isCreator then
                (case getSession w now sid of
                   None \<Rightarrow> no_effects w
                 | Some session \<Rightarrow>
                     updateGameStateAndBroadcast w now sid
                       ((current_game_state w now sid session)\<lparr>gameLimit := limit\<rparr>))
              else no_effects w))"

section \<open>A sample session\<close>

text \<open>
  One run of the handlers, used to instantiate the theorems below: a session is created,
  two users join, the first adds a game and spins, clears the list while the wheel turns,
  adds another game and spins again. \<open>codepoint_compare\<close> stands in for
  \<open>localeCompare\<close>, and \<open>Math.random()\<close> returns 0 each time.
\<close>

fun codepoint_compare :: "string \<Rightarrow> string \<Rightarrow> int" where
  "codepoint_compare [] [] = 0"
| "codepoint_compare [] (y # ys) = - 1"
| "codepoint_compare (x # xs) [] = 1"
| "codepoint_compare (x # xs) (y # ys) =
     (if (of_char x :: nat) < of_char y then - 1
      else if (of_char y :: nat) < of_char x then 1
      else codepoint_compare xs ys)"

definition sample_env :: spin_env where
  "sample_env = \<lparr>localeCompare = codepoint_compare, random_duration = 0, random_index = 0,
                  random_turns = 0\<rparr>"

definition chess :: game where
  "chess = \<lparr>name = ''Chess'', genre = ''Board'', platform = ''Tabletop'', addedBy = None\<rparr>"

definition go :: game where
  "go = \<lparr>name = ''Go'', genre = ''Board'', platform = ''Tabletop'', addedBy = None\<rparr>"

definition hex :: game where
  "hex = \<lparr>name = ''Hex'', genre = ''Board'', platform = ''Tabletop'', addedBy = None\<rparr>"

definition alice :: "(session_id \<times> user_id) option" where
  "alice = Some (''123456'', ''user-a'')"

definition bob :: "(session_id \<times> user_id) option" where
  "bob = Some (''123456'', ''user-b'')"

text \<open>A member who joined the session with the id \<open>constructor\<close>.\<close>

definition carol :: "(session_id \<times> user_id) option" where
  "carol = Some (''123456'', ''constructor'')"

definition world0 :: world where
  "world0 = \<lparr>sessions = Map.empty, session_users = (\<lambda>s. []), state_cache = Map.empty,
              counters = Map.empty, connections = Map.empty\<rparr>"

definition world_joined :: world where
  "world_joined =
     (case createSession world0 0 ''123456'' of
        Inl e \<Rightarrow> world0
      | Inr w \<Rightarrow> w\<lparr>session_users := (\<lambda>s. if s = ''123456'' then [''user-a'', ''user-b''] else []),
                   connections := [''123456'' \<mapsto> {''user-a'', ''user-b''}]\<rparr>)"

text \<open>The same stores after the process restarts: the table remains, \<open>connections\<close> is empty.\<close>

definition world_restarted :: world where
  "world_restarted = world_joined\<lparr>connections := Map.empty\<rparr>"

definition world_chess :: world where
  "world_chess = world_after (game_action sample_env world_joined 1000 alice (Add_game chess))"

definition world_spin :: world where
  "world_spin = world_after (game_action sample_env world_chess 2000 alice Start_spin)"

definition world_cleared :: world where
  "world_cleared = world_after (game_action sample_env world_spin 3000 alice Clear_all_games)"

definition world_go :: world where
  "world_go = world_after (game_action sample_env world_cleared 3500 alice (Add_game go))"

definition world_respin :: world where
  "world_respin = world_after (game_action sample_env world_go 4000 alice Start_spin)"



definition world_zero_limit :: world where
  "world_zero_limit = world_after (set_game_limit world_chess 1200 alice (Some 0))"

definition world_limit_one :: world where
  "world_limit_one = world_after (set_game_limit world_chess 1200 alice (Some 1))"

definition world_inherited :: world where
  "world_inherited = world_after (game_action sample_env world_limit_one 1300 carol (Add_game go))"

section \<open>Rate limiting\<close>

text \<open>
  Redis \<open>INCR\<close> and \<open>EXPIRE\<close> on the integer keys. A key whose expiry has passed is gone.
\<close>

definition live_counter :: "world \<Rightarrow> time \<Rightarrow> string \<Rightarrow> (int \<times> time option) option" where
  "live_counter w now key =
     (case counters w key of
        None \<Rightarrow> None
      | Some (v, None) \<Rightarrow> Some (v, None)
      | Some (v, Some expiry) \<Rightarrow> if now < expiry then Some (v, Some expiry) else None)"

definition incr :: "world \<Rightarrow> time \<Rightarrow> string \<Rightarrow> world \<times> int" where
  "incr w now key =
     (case live_counter w now key of
        None \<Rightarrow> (w\<lparr>counters := (counters w)(key \<mapsto> (1, None))\<rparr>, 1)
      | Some (v, expiry) \<Rightarrow> (w\<lparr>counters := (counters w)(key \<mapsto> (v + 1, expiry))\<rparr>, v + 1))"

definition expire :: "world \<Rightarrow> time \<Rightarrow> string \<Rightarrow> int \<Rightarrow> world" where
  "expire w now key seconds =
     (case live_counter w now key of
        None \<Rightarrow> w
      | Some (v, _) \<Rightarrow> w\<lparr>counters := (counters w)(key \<mapsto> (v, Some (now + seconds * 1000)))\<rparr>)"

definition checkRateLimit :: "world \<Rightarrow> time \<Rightarrow> string \<Rightarrow> int \<Rightarrow> int \<Rightarrow> world \<times> bool" where
  "checkRateLimit w now key limit window =
     (case incr w now key of
        (w1, current) \<Rightarrow>
          ((if current = 1 then expire w1 now key window else w1), current \<le> limit))"

text \<open>
  The first step of the message handler:
  \<open>rate_limit:${ws._socket.remoteAddress}:${Date.now()}\<close>, limit 100, window 60.
\<close>

definition rateLimitKey :: "string \<Rightarrow> time \<Rightarrow> string" where
  "rateLimitKey remoteAddress now = ''rate_limit:'' @ remoteAddress @ '':'' @ show_int now"

definition rate_limit :: "world \<Rightarrow> time \<Rightarrow> string \<Rightarrow> world \<times> bool" where
  "rate_limit w now remoteAddress = checkRateLimit w now (rateLimitKey remoteAddress now) 100 60"

text \<open>The messages of one address, received at the given instants; which are admitted.\<close>

fun receive_all :: "world \<Rightarrow> string \<Rightarrow> time list \<Rightarrow> bool list" where
  "receive_all w remoteAddress [] = []"
| "receive_all w remoteAddress (now # later) =
     (case rate_limit w now remoteAddress of
        (w', admitted) \<Rightarrow> admitted # receive_all w' remoteAddress later)"

text \<open>The value of a decimal string, to read \<open>show_nat\<close> back.\<close>

definition digit_value :: "char \<Rightarrow> nat" where
  "digit_value c = of_char c - 48"

definition decimal_value :: "string \<Rightarrow> nat" where
  "decimal_value s = foldl (\<lambda>acc c. 10 * acc + digit_value c) 0 s"


section \<open>The \<open>create_session\<close> handler\<close>

text \<open>\<open>Math.floor(100000 + Math.random() * 900000).toString()\<close>\<close>

definition candidate_id :: "real \<Rightarrow> session_id" where
  "candidate_id r = show_int \<lfloor>js_add 100000 (js_mul r 900000)\<rfloor>"

text \<open>
  The \<open>do ... while (connections.has(id))\<close> loop. The list holds the values that
  successive calls of \<open>Math.random()\<close> return; \<open>None\<close> means that the loop has not ended
  within the values supplied.
\<close>

fun generateSessionId :: "world \<Rightarrow> real list \<Rightarrow> session_id option" where
  "generateSessionId w [] = None"
| "generateSessionId w (r # rs) =
     (let id = candidate_id r in
      if connections w id \<noteq> None then generateSessionId w rs else Some id)"

definition create_session :: "world \<Rightarrow> time \<Rightarrow> real list \<Rightarrow> effects option" where
  "create_session w now randoms =
     (case generateSessionId w randoms of
        None \<Rightarrow> None
      | Some sessionId \<Rightarrow>
          Some (case createSession w now sessionId of
                  Inl e \<Rightarrow> reply_only w (Error_message ''Failed to create session'')
                | Inr w' \<Rightarrow> reply_only w' (Session_created sessionId)))"


section \<open>Properties\<close>

subsection \<open>Unfolding the model\<close>

lemmas store_defs = getSession_def getCachedSessionState_def cacheSessionState_def
  updateSessionGameState_def updateGameStateAndBroadcast_def current_game_state_def
  fetch_game_state_def createSession_def no_effects_def reply_only_def

lemmas handler_defs = game_action_def add_game_def remove_game_def clear_all_games_def
  start_spin_def ensure_counts_def counts_def limit_reached_def has_name_def
  default_game_state_def hours24_def

lemmas count_defs = read_count_def or_zero_def at_least_def increment_count_def
  decrement_count_def prototype_methods_def function_name_def

lemmas spin_defs = make_spin_data_def sort_games_def Let_def nth_opt_def winningIndex_def
  js_mul_def fl_def

lemmas sample_defs = world_joined_def world0_def alice_def bob_def chess_def go_def sample_env_def
  world_chess_def world_spin_def

lemmas fl_eval = fl_def expo_def compute_floorlog round_half_even_def Let_def power_int_minus
  js_add_def js_sub_def js_mul_def js_div_def

subsection \<open>Reading back what was written\<close>

lemma getSession_after_update:
  "getSession (cacheSessionState (updateSessionGameState w now sid gs) now sid gs) now' sid' =
     (case getSession w now' sid' of
        None \<Rightarrow> None
      | Some row \<Rightarrow> Some (if sid' = sid then row\<lparr>game_state := gs, updated_at := now\<rparr> else row))"
  by (auto simp add: getSession_def cacheSessionState_def updateSessionGameState_def
      split: option.splits)

lemma current_after_update:
  "current_game_state (cacheSessionState (updateSessionGameState w now sid gs) now sid gs) now' sid
      (row\<lparr>game_state := gs, updated_at := now\<rparr>) = gs"
  by (simp add: current_game_state_def getCachedSessionState_def cacheSessionState_def
        updateSessionGameState_def split: option.splits)

lemma fetch_after_update:
  "getSession w t' sid \<noteq> None \<Longrightarrow>
   fetch_game_state (world_after (updateGameStateAndBroadcast w t sid gs)) t' sid
     = Some (ensure_counts gs)"
  by (auto simp add: fetch_game_state_def updateGameStateAndBroadcast_def
        getSession_after_update current_after_update split: option.splits)

lemma fetch_after_write:
  "getSession w t' sid \<noteq> None \<Longrightarrow>
   fetch_game_state (cacheSessionState (updateSessionGameState w t sid gs) t sid gs) t' sid
     = Some (ensure_counts gs)"
  using fetch_after_update [of w t' sid t gs] by (simp add: updateGameStateAndBroadcast_def)

lemma getSession_mono:
  "getSession w t0 sid = None \<Longrightarrow> t0 \<le> t \<Longrightarrow> getSession w t sid = None"
  by (auto simp add: getSession_def split: option.splits if_splits)

lemma fetch_SomeD:
  "fetch_game_state w now sid = Some gs \<Longrightarrow>
   \<exists>s. getSession w now sid = Some s \<and> gs = ensure_counts (current_game_state w now sid s)"
  by (auto simp add: fetch_game_state_def split: option.splits)

lemma fetch_live: "fetch_game_state w now sid = Some gs \<Longrightarrow> getSession w now sid \<noteq> None"
  by (auto simp add: fetch_game_state_def split: option.splits)

lemma ensure_counts_Some: "userGameCounts gs \<noteq> None \<Longrightarrow> ensure_counts gs = gs"
  by (auto simp add: ensure_counts_def counts_def)

lemma fetch_counts: "fetch_game_state w now sid = Some gs \<Longrightarrow> userGameCounts gs \<noteq> None"
  by (auto dest!: fetch_SomeD simp add: ensure_counts_def)

lemma has_name_iff: "has_name gs n \<longleftrightarrow> n \<in> name ` set gs"
  by (auto simp add: has_name_def find_None_iff)






subsection \<open>Rounding to binary64\<close>

lemma fl_zero: "fl 0 = 0"
  by (simp add: fl_def)

lemma expo_bounds_ge1:
  fixes a :: real
  assumes "1 \<le> a"
  shows "2 powi (int (floorlog 2 (nat \<lfloor>a\<rfloor>)) - 1) \<le> a
       \<and> a < 2 powi (int (floorlog 2 (nat \<lfloor>a\<rfloor>)) - 1 + 1)"
proof -
  let ?n = "nat \<lfloor>a\<rfloor>"
  let ?k = "floorlog 2 ?n"
  have n: "0 < ?n"
    using assms by simp
  have b: "2 ^ (?k - 1) \<le> ?n \<and> ?n < 2 ^ ?k"
    using floorlog_bounds [of ?n 2] n by simp
  have k: "0 < ?k"
    using n by (simp add: floorlog_def)
  have "(2::real) ^ (?k - 1) \<le> real ?n"
    using b by (metis of_nat_le_iff of_nat_numeral of_nat_power)
  also have "real ?n \<le> a"
    using assms by simp
  finally have lower: "(2::real) ^ (?k - 1) \<le> a" .
  have "a < real ?n + 1"
    using assms by linarith
  also have "real ?n + 1 \<le> (2::real) ^ ?k"
  proof -
    have "?n < 2 ^ ?k"
      using b by (rule conjunct2)
    then have "?n + 1 \<le> 2 ^ ?k"
      by linarith
    then have "real (?n + 1) \<le> real (2 ^ ?k)"
      by (rule iffD2 [OF of_nat_le_iff])
    then show ?thesis
      by simp
  qed
  finally have upper: "a < (2::real) ^ ?k" .
  have e1: "(2::real) powi (int ?k - 1) = 2 ^ (?k - 1)"
    using k by (simp add: power_int_def nat_diff_distrib')
  have e2: "(2::real) powi (int ?k - 1 + 1) = 2 ^ ?k"
    by simp
  show ?thesis
    using lower upper by (simp only: e1 e2)
qed

lemma expo_bounds_lt1:
  fixes a :: real
  assumes "0 < a" and "a < 1"
  shows "2 powi (- int (floorlog 2 (nat \<lceil>1 / a\<rceil> - 1))) \<le> a
       \<and> a < 2 powi (- int (floorlog 2 (nat \<lceil>1 / a\<rceil> - 1)) + 1)"
proof -
  let ?y = "1 / a"
  let ?m = "nat \<lceil>?y\<rceil>"
  let ?k = "floorlog 2 (?m - 1)"
  have y: "1 < ?y"
    using assms by simp
  then have c: "2 \<le> \<lceil>?y\<rceil>"
    by linarith
  then have m: "0 < ?m - 1"
    by linarith
  have b: "2 ^ (?k - 1) \<le> ?m - 1 \<and> ?m - 1 < 2 ^ ?k"
    using floorlog_bounds [of "?m - 1" 2] m by simp
  have k: "0 < ?k"
    using m by (simp add: floorlog_def)
  have "?m - 1 < 2 ^ ?k"
    using b by (rule conjunct2)
  then have "?m \<le> 2 ^ ?k"
    by linarith
  then have "real ?m \<le> real (2 ^ ?k)"
    by (rule iffD2 [OF of_nat_le_iff])
  then have mk: "real ?m \<le> 2 ^ ?k"
    by simp
  have "?y \<le> real_of_int \<lceil>?y\<rceil>"
    by (rule le_of_int_ceiling)
  also have "real_of_int \<lceil>?y\<rceil> = real ?m"
    using c by simp
  finally have yk: "?y \<le> 2 ^ ?k"
    using mk by linarith
  have lower: "1 / 2 ^ ?k \<le> a"
  proof -
    have "1 \<le> a * 2 ^ ?k"
      using yk assms(1) by (simp add: field_simps)
    then show ?thesis
      by (simp add: field_simps)
  qed
  have "2 ^ (?k - 1) \<le> ?m - 1"
    using b by (rule conjunct1)
  then have "real (2 ^ (?k - 1)) \<le> real (?m - 1)"
    by (rule iffD2 [OF of_nat_le_iff])
  then have "2 ^ (?k - 1) \<le> real ?m - 1"
    using m by (simp add: of_nat_diff)
  also have "real ?m - 1 = real_of_int \<lceil>?y\<rceil> - 1"
    using c by simp
  also have "\<dots> < ?y"
    by linarith
  finally have ky: "2 ^ (?k - 1) < ?y" .
  have upper: "a < 1 / 2 ^ (?k - 1)"
  proof -
    have "a * 2 ^ (?k - 1) < 1"
      using ky assms(1) by (simp add: field_simps)
    then show ?thesis
      by (simp add: field_simps)
  qed
  have e1: "(2::real) powi (- int ?k) = 1 / 2 ^ ?k"
    by (simp add: power_int_minus_divide)
  have "- int ?k + 1 = - int (?k - 1)"
    using k by simp
  then have e2: "(2::real) powi (- int ?k + 1) = 1 / 2 ^ (?k - 1)"
    by (simp only: power_int_minus_divide power_int_of_nat)
  show ?thesis
    using lower upper by (simp only: e1 e2)
qed

lemma expo_bounds:
  assumes "x \<noteq> 0"
  shows "2 powi (expo x) \<le> \<bar>x\<bar> \<and> \<bar>x\<bar> < 2 powi (expo x + 1)"
proof (cases "1 \<le> \<bar>x\<bar>")
  case True
  then show ?thesis
    using expo_bounds_ge1 [of "\<bar>x\<bar>"] by (simp add: expo_def)
next
  case False
  then show ?thesis
    using expo_bounds_lt1 [of "\<bar>x\<bar>"] assms by (simp add: expo_def)
qed

lemma expo_eqI:
  assumes "2 powi e \<le> \<bar>x\<bar>" and "\<bar>x\<bar> < 2 powi (e + 1)"
  shows "expo x = e"
proof -
  have "0 < (2::real) powi e"
    by simp
  then have "0 < \<bar>x\<bar>"
    using assms(1) by linarith
  then have nz: "x \<noteq> 0"
    by simp
  have b: "2 powi (expo x) \<le> \<bar>x\<bar>" "\<bar>x\<bar> < 2 powi (expo x + 1)"
    using expo_bounds [OF nz] by simp_all
  have "(2::real) powi e < 2 powi (expo x + 1)"
    using assms(1) b(2) by linarith
  then have 1: "e < expo x + 1"
    using power_int_increasing [of "expo x + 1" e "2::real"] by (cases "e < expo x + 1") auto
  have "(2::real) powi (expo x) < 2 powi (e + 1)"
    using assms(2) b(1) by linarith
  then have 2: "expo x < e + 1"
    using power_int_increasing [of "e + 1" "expo x" "2::real"] by (cases "expo x < e + 1") auto
  show ?thesis
    using 1 2 by linarith
qed

lemma expo_less:
  assumes "x \<noteq> 0" and "\<bar>x\<bar> < 2 powi (e + 1)"
  shows "expo x \<le> e"
proof -
  have "(2::real) powi (expo x) < 2 powi (e + 1)"
    using expo_bounds [OF assms(1)] assms(2) by linarith
  then show ?thesis
    using power_int_increasing [of "e + 1" "expo x" "2::real"] by (cases "expo x \<le> e") auto
qed

lemma round_half_even_error: "\<bar>real_of_int (round_half_even x) - x\<bar> \<le> 1 / 2"
  by (simp add: round_half_even_def Let_def)

lemma round_half_even_of_int: "round_half_even (real_of_int k) = k"
  by (simp add: round_half_even_def)

lemma round_half_even_mono: "x \<le> y \<Longrightarrow> round_half_even x \<le> round_half_even y"
proof -
  assume xy: "x \<le> y"
  then have f: "\<lfloor>x\<rfloor> \<le> \<lfloor>y\<rfloor>"
    by (rule floor_mono)
  show ?thesis
  proof (cases "\<lfloor>x\<rfloor> = \<lfloor>y\<rfloor>")
    case True
    then show ?thesis
      using xy by (auto simp add: round_half_even_def Let_def)
  next
    case False
    then have "\<lfloor>x\<rfloor> + 1 \<le> \<lfloor>y\<rfloor>"
      using f by linarith
    moreover have "round_half_even x \<le> \<lfloor>x\<rfloor> + 1"
      by (simp add: round_half_even_def Let_def)
    moreover have "\<lfloor>y\<rfloor> \<le> round_half_even y"
      by (simp add: round_half_even_def Let_def)
    ultimately show ?thesis
      by linarith
  qed
qed

lemma fl_eq:
  "x \<noteq> 0 \<Longrightarrow> fl x = real_of_int (round_half_even (x / 2 powi (expo x - 52))) * 2 powi (expo x - 52)"
  by (simp add: fl_def Let_def)

lemma fl_error_ulp:
  assumes "x \<noteq> 0"
  shows "\<bar>fl x - x\<bar> \<le> 2 powi (expo x - 53)"
proof -
  let ?u = "(2::real) powi (expo x - 52)"
  have u: "0 < ?u"
    by simp
  have "fl x - x = (real_of_int (round_half_even (x / ?u)) - x / ?u) * ?u"
    using u by (simp add: fl_eq [OF assms] field_simps)
  then have "\<bar>fl x - x\<bar> = \<bar>real_of_int (round_half_even (x / ?u)) - x / ?u\<bar> * ?u"
    using u by (simp add: abs_mult)
  also have "\<dots> \<le> 1 / 2 * ?u"
    using round_half_even_error [of "x / ?u"] u by (intro mult_right_mono) auto
  also have "1 / 2 * ?u = 2 powi (expo x - 53)"
  proof -
    have "?u = 2 powi ((expo x - 53) + 1)"
      by simp
    also have "\<dots> = 2 powi (expo x - 53) * 2 powi 1"
      by (subst power_int_add) simp_all
    finally show ?thesis
      by simp
  qed
  finally show ?thesis .
qed

text \<open>The unit roundoff of binary64.\<close>

lemma fl_error:
  "\<bar>fl x - x\<bar> \<le> \<bar>x\<bar> / 2 ^ 53"
proof (cases "x = 0")
  case True
  then show ?thesis
    by (simp add: fl_def)
next
  case False
  have "\<bar>fl x - x\<bar> \<le> 2 powi (expo x - 53)"
    using False by (rule fl_error_ulp)
  also have "(2::real) powi (expo x - 53) = 2 powi (expo x) / 2 ^ 53"
    by (simp add: power_int_diff)
  also have "\<dots> \<le> \<bar>x\<bar> / 2 ^ 53"
    using expo_bounds [OF False] by (simp add: divide_right_mono)
  finally show ?thesis .
qed

lemma fl_error_bound:
  assumes "\<bar>x\<bar> \<le> K"
  shows "\<bar>fl x - x\<bar> \<le> K / 2 ^ 53"
proof -
  have "\<bar>fl x - x\<bar> \<le> \<bar>x\<bar> / 2 ^ 53"
    by (rule fl_error)
  also have "\<dots> \<le> K / 2 ^ 53"
    using assms by (simp add: divide_right_mono)
  finally show ?thesis .
qed

lemma fl_nonneg:
  assumes "0 \<le> x"
  shows "0 \<le> fl x"
proof -
  have "\<bar>fl x - x\<bar> \<le> x / 2 ^ 53"
    using fl_error [of x] assms by simp
  moreover have "x / 2 ^ 53 \<le> x"
    using assms by (simp add: field_simps)
  ultimately show ?thesis
    by linarith
qed

lemma grid_of_int:
  assumes "e \<le> 52"
  shows "real_of_int (m * 2 ^ nat (52 - e)) * 2 powi (e - 52) = real_of_int m"
proof -
  have "(2::real) powi (e - 52) = 1 / 2 ^ nat (52 - e)"
    using assms by (simp add: power_int_def power_one_over)
  then show ?thesis
    by simp
qed

lemma fl_ge_grid:
  assumes "x \<noteq> 0" and "real_of_int k * 2 powi (expo x - 52) \<le> x"
  shows "real_of_int k * 2 powi (expo x - 52) \<le> fl x"
proof -
  let ?u = "(2::real) powi (expo x - 52)"
  have u: "0 < ?u"
    by simp
  have "real_of_int k \<le> x / ?u"
    using assms(2) u by (simp add: field_simps)
  then have "round_half_even (real_of_int k) \<le> round_half_even (x / ?u)"
    by (rule round_half_even_mono)
  then have "real_of_int k \<le> real_of_int (round_half_even (x / ?u))"
    by (simp add: round_half_even_of_int)
  then have "real_of_int k * ?u \<le> real_of_int (round_half_even (x / ?u)) * ?u"
    using u by (simp add: mult_right_mono)
  then show ?thesis
    by (simp add: fl_eq [OF assms(1)])
qed

lemma fl_le_grid:
  assumes "x \<noteq> 0" and "x \<le> real_of_int k * 2 powi (expo x - 52)"
  shows "fl x \<le> real_of_int k * 2 powi (expo x - 52)"
proof -
  let ?u = "(2::real) powi (expo x - 52)"
  have u: "0 < ?u"
    by simp
  have "x / ?u \<le> real_of_int k"
    using assms(2) u by (simp add: field_simps)
  then have "round_half_even (x / ?u) \<le> round_half_even (real_of_int k)"
    by (rule round_half_even_mono)
  then have "real_of_int (round_half_even (x / ?u)) \<le> real_of_int k"
    by (simp add: round_half_even_of_int)
  then have "real_of_int (round_half_even (x / ?u)) * ?u \<le> real_of_int k * ?u"
    using u by (simp add: mult_right_mono)
  then show ?thesis
    by (simp add: fl_eq [OF assms(1)])
qed

lemma fl_ge_of_int:
  assumes "x \<noteq> 0" and "expo x \<le> 52" and "real_of_int m \<le> x"
  shows "real_of_int m \<le> fl x"
  using fl_ge_grid [OF assms(1), of "m * 2 ^ nat (52 - expo x)"] assms(3)
  by (simp only: grid_of_int [OF assms(2)])

lemma fl_le_of_int:
  assumes "x \<noteq> 0" and "expo x \<le> 52" and "x \<le> real_of_int m"
  shows "fl x \<le> real_of_int m"
  using fl_le_grid [OF assms(1), of "m * 2 ^ nat (52 - expo x)"] assms(3)
  by (simp only: grid_of_int [OF assms(2)])

lemma spinDuration_sample: "spinDuration sample_env = 3000"
  by (simp add: spinDuration_def sample_env_def js_add_def js_mul_def fl_zero)
     (simp add: fl_def expo_def compute_floorlog round_half_even_def Let_def power_int_minus)

subsection \<open>Decimal rendering\<close>

lemma digit_value_digit_char: "d < 10 \<Longrightarrow> digit_value (digit_char d) = d"
proof -
  assume "d < 10"
  then have "d \<in> {0, 1, 2, 3, 4, 5, 6, 7, 8, 9}"
    by auto
  then show ?thesis
    by (auto simp add: digit_value_def digit_char_def)
qed

lemma decimal_value_snoc: "decimal_value (s @ [c]) = 10 * decimal_value s + digit_value c"
  by (simp add: decimal_value_def)

lemma decimal_value_show_nat: "decimal_value (show_nat n) = n"
proof (induction n rule: show_nat.induct)
  case (1 n)
  show ?case
  proof (cases "n < 10")
    case True
    then show ?thesis
      by (subst show_nat.simps) (simp add: decimal_value_def digit_value_digit_char)
  next
    case False
    then have "decimal_value (show_nat n)
                 = 10 * decimal_value (show_nat (n div 10)) + digit_value (digit_char (n mod 10))"
      by (subst show_nat.simps) (simp add: decimal_value_snoc)
    then show ?thesis
      using False "1.IH" by (simp add: digit_value_digit_char)
  qed
qed

lemma show_int_inject:
  assumes "0 \<le> a" and "0 \<le> b" and "show_int a = show_int b"
  shows "a = b"
proof -
  have "decimal_value (show_nat (nat a)) = decimal_value (show_nat (nat b))"
    using assms by (simp add: show_int_def)
  then show ?thesis
    using assms(1,2) by (simp add: decimal_value_show_nat)
qed


lemma length_show_nat:
  "10 ^ k \<le> n \<Longrightarrow> n < 10 ^ Suc k \<Longrightarrow> length (show_nat n) = Suc k"
proof (induction k arbitrary: n)
  case 0
  then show ?case
    by (subst show_nat.simps) simp
next
  case (Suc k)
  define a :: nat where "a = 10 ^ k"
  have a: "1 \<le> a"
    by (simp add: a_def)
  have lo: "10 * a \<le> n" and hi: "n < 10 * (10 * a)"
    using Suc.prems by (simp_all add: a_def)
  have big: "\<not> n < 10"
    using a lo by linarith
  have "a \<le> n div 10"
    using lo by linarith
  moreover have "n div 10 < 10 * a"
    using hi by linarith
  ultimately have "10 ^ k \<le> n div 10" and "n div 10 < 10 ^ Suc k"
    by (simp_all add: a_def)
  then have "length (show_nat (n div 10)) = Suc k"
    by (rule Suc.IH)
  then show ?case
    using big by (subst show_nat.simps) simp
qed

lemma digit_char_digit: "d < 10 \<Longrightarrow> digit_char d \<in> set ''0123456789''"
  unfolding digit_char_def by (rule nth_mem) simp

lemma set_show_nat: "set (show_nat n) \<subseteq> set ''0123456789''"
proof (induction n rule: show_nat.induct)
  case (1 n)
  show ?case
  proof (cases "n < 10")
    case True
    then show ?thesis
      using digit_char_digit [of n] by (subst show_nat.simps) simp
  next
    case False
    then show ?thesis
      using "1.IH" digit_char_digit [of "n mod 10"] by (subst show_nat.simps) simp
  qed
qed

subsection \<open>Spinning an empty list\<close>

text \<open>
  C1, as stated, fails. \<open>start_spin\<close> has no test for an empty list: the only test is
  \<open>games.length > 0\<close> around the choice of the winner and of the rotation. In the sample
  session, freshly created and with no game selected, the spin starts: nothing is sent back
  to the requester, the stored state has \<open>isSpinning = true\<close> and a \<open>spinData\<close> whose
  winner is \<open>null\<close>.
\<close>

theorem empty_spin_counterexample:
  "selectedGames (the (fetch_game_state world_joined 500 ''123456'')) = []
   \<and> \<not> isSpinning (the (fetch_game_state world_joined 500 ''123456''))
   \<and> replies (game_action sample_env world_joined 500 alice Start_spin) = []
   \<and> isSpinning (the (fetch_game_state
        (world_after (game_action sample_env world_joined 500 alice Start_spin)) 500 ''123456''))
   \<and> spinData (the (fetch_game_state
        (world_after (game_action sample_env world_joined 500 alice Start_spin)) 500 ''123456''))
      = Some \<lparr>startTime = 500, duration = 3000, finalRotation = 0, baseRotation = 0,
               preCalculatedWinner = None\<rparr>"
  by (simp add: sample_defs store_defs handler_defs spin_defs
        spinDuration_sample [unfolded sample_env_def])

text \<open>
  C1, amended. For a session whose \<open>selectedGames\<close> is empty, \<open>start_spin\<close> is dropped
  without a reply or a change when the session is already spinning; otherwise the spin
  starts: no reply is sent, the completion timer is set, \<open>isSpinning\<close> becomes true,
  \<open>winner\<close> null, and \<open>spinData\<close> holds the start time, the duration, both rotations 0
  and a null winner.
\<close>

theorem empty_spin_starts:
  assumes "fetch_game_state w now sid = Some gs" and "selectedGames gs = []"
  shows "(isSpinning gs \<longrightarrow> game_action env w now (Some (sid, uid)) Start_spin = no_effects w)
       \<and> (\<not> isSpinning gs \<longrightarrow>
            replies (game_action env w now (Some (sid, uid)) Start_spin) = []
          \<and> timers (game_action env w now (Some (sid, uid)) Start_spin) = [(spinDuration env, sid)]
          \<and> fetch_game_state (world_after (game_action env w now (Some (sid, uid)) Start_spin)) now sid
              = Some (gs\<lparr>isSpinning := True, winner := None,
                         spinData := Some \<lparr>startTime = now, duration = spinDuration env,
                                           finalRotation = 0, baseRotation = 0,
                                           preCalculatedWinner = None\<rparr>\<rparr>))"
proof -
  have live: "getSession w now sid \<noteq> None"
    using assms(1) by (rule fetch_live)
  have sd: "make_spin_data env now (selectedGames gs)
              = \<lparr>startTime = now, duration = spinDuration env, finalRotation = 0, baseRotation = 0,
                 preCalculatedWinner = None\<rparr>"
    by (simp add: assms(2) make_spin_data_def sort_games_def)
  show ?thesis
    using assms(1) live fetch_counts [OF assms(1)]
    by (simp add: game_action_def start_spin_def Let_def sd fetch_after_write
          updateGameStateAndBroadcast_def no_effects_def ensure_counts_Some)
qed

theorem empty_spin_starts_witness:
  "fetch_game_state world_joined 500 ''123456''
     = Some (default_game_state\<lparr>userGameCounts := Some Map.empty\<rparr>)
   \<and> selectedGames (default_game_state\<lparr>userGameCounts := Some Map.empty\<rparr>) = []
   \<and> replies (game_action sample_env world_joined 500 alice Start_spin) = []
   \<and> timers (game_action sample_env world_joined 500 alice Start_spin) = [(3000, ''123456'')]
   \<and> fetch_game_state
        (world_after (game_action sample_env world_joined 500 alice Start_spin)) 500 ''123456''
      = Some \<lparr>selectedGames = [], isSpinning = True, winner = None,
              spinData = Some \<lparr>startTime = 500, duration = 3000, finalRotation = 0,
                                baseRotation = 0, preCalculatedWinner = None\<rparr>,
              gameLimit = None, userGameCounts = Some Map.empty\<rparr>"
proof -
  have f: "fetch_game_state world_joined 500 ''123456''
             = Some (default_game_state\<lparr>userGameCounts := Some Map.empty\<rparr>)"
    by (simp add: sample_defs store_defs handler_defs)
  have e: "selectedGames (default_game_state\<lparr>userGameCounts := Some Map.empty\<rparr>) = []"
    by (simp add: default_game_state_def)
  show ?thesis
    using empty_spin_starts [OF f e, of sample_env "''user-a''"] f e
    by (simp add: alice_def spinDuration_sample default_game_state_def)
qed

subsection \<open>Spin completion\<close>

lemma spin_completion_fires:
  "getSession w t sid = Some s \<Longrightarrow> isSpinning (current_game_state w t sid s) \<Longrightarrow>
   spinData (current_game_state w t sid s) \<noteq> None \<Longrightarrow>
   spin_completion w t sid =
     updateGameStateAndBroadcast w t sid (complete_state (current_game_state w t sid s))"
  by (simp add: spin_completion_def Let_def)

lemma spin_completion_expired:
  "getSession w t sid = None \<Longrightarrow> spin_completion w t sid = no_effects w"
  by (simp add: spin_completion_def)

lemma spin_completion_idle:
  "getSession w t sid = Some s \<Longrightarrow>
   \<not> (isSpinning (current_game_state w t sid s) \<and> spinData (current_game_state w t sid s) \<noteq> None) \<Longrightarrow>
   spin_completion w t sid = no_effects w"
  by (auto simp add: spin_completion_def Let_def)

lemma completion_after_update_idle:
  assumes "\<not> isSpinning gs"
  shows "spin_completion (world_after (updateGameStateAndBroadcast w t0 sid gs)) t sid
           = no_effects (world_after (updateGameStateAndBroadcast w t0 sid gs))"
proof (cases "getSession w t sid")
  case None
  then show ?thesis
    by (simp add: spin_completion_expired updateGameStateAndBroadcast_def getSession_after_update)
next
  case (Some row)
  then have "getSession (world_after (updateGameStateAndBroadcast w t0 sid gs)) t sid
               = Some (row\<lparr>game_state := gs, updated_at := t0\<rparr>)"
    by (simp add: updateGameStateAndBroadcast_def getSession_after_update)
  then show ?thesis
    by (rule spin_completion_idle)
       (simp add: updateGameStateAndBroadcast_def current_after_update assms)
qed

text \<open>
  C2, as stated, fails. The callback carries no identity of the spin that set it; it tests
  only \<open>isSpinning && spinData\<close> of the state it reads. In the sample run the first spin
  starts at 2000 and sets a timer for the session; the list is cleared and a second spin
  starts at 4000. When the first spin's callback fires at 5000 the current \<open>spinData\<close> is the
  second spin's, and the callback ends that spin and declares its winner.
\<close>

theorem stale_completion_counterexample:
  "timers (game_action sample_env world_chess 2000 alice Start_spin)
     = [(spinDuration sample_env, ''123456'')]
   \<and> map_option startTime (spinData (the (fetch_game_state world_spin 2500 ''123456''))) = Some 2000
   \<and> map_option startTime (spinData (the (fetch_game_state world_respin 5000 ''123456''))) = Some 4000
   \<and> isSpinning (the (fetch_game_state world_respin 5000 ''123456''))
   \<and> \<not> isSpinning (the (fetch_game_state
         (world_after (spin_completion world_respin 5000 ''123456'')) 5000 ''123456''))
   \<and> winner (the (fetch_game_state
         (world_after (spin_completion world_respin 5000 ''123456'')) 5000 ''123456''))
        = Some (go\<lparr>addedBy := Some ''user-a''\<rparr>)"
  by (simp add: sample_defs world_cleared_def world_go_def world_respin_def store_defs handler_defs spin_defs spin_completion_def
      complete_state_def)

text \<open>
  C2, amended. A completion that finds the session live and its state still spinning with
  a \<open>spinData\<close> sets \<open>isSpinning = false\<close>, \<open>winner\<close> = that \<open>spinData\<close>'s preselected
  winner and \<open>spinData = null\<close>; one that finds the session gone or the state not spinning
  changes nothing and sends nothing. In particular a completion that fires after
  \<open>clear_all_games\<close>, with no spin started since, changes nothing. The test is
  \<open>isSpinning && spinData\<close>; no identity of the spin is compared.
\<close>

theorem completion_guard:
  assumes "t0 \<le> t"
  shows "(\<forall>s sd. getSession w t sid = Some s \<and> isSpinning (current_game_state w t sid s)
               \<and> spinData (current_game_state w t sid s) = Some sd
            \<longrightarrow> fetch_game_state (world_after (spin_completion w t sid)) t sid
                  = Some (ensure_counts ((current_game_state w t sid s)
                       \<lparr>isSpinning := False, winner := preCalculatedWinner sd, spinData := None\<rparr>)))
       \<and> (\<forall>s. getSession w t sid = Some s
               \<and> \<not> (isSpinning (current_game_state w t sid s)
                      \<and> spinData (current_game_state w t sid s) \<noteq> None)
            \<longrightarrow> spin_completion w t sid = no_effects w)
       \<and> (getSession w t sid = None \<longrightarrow> spin_completion w t sid = no_effects w)
       \<and> spin_completion (world_after (game_action env w t0 (Some (sid, uid)) Clear_all_games)) t sid
            = no_effects (world_after (game_action env w t0 (Some (sid, uid)) Clear_all_games))"
proof -
  have fires: "fetch_game_state (world_after (spin_completion w t sid)) t sid
                 = Some (ensure_counts ((current_game_state w t sid s)
                       \<lparr>isSpinning := False, winner := preCalculatedWinner sd, spinData := None\<rparr>))"
    if "getSession w t sid = Some s" "isSpinning (current_game_state w t sid s)"
       "spinData (current_game_state w t sid s) = Some sd" for s sd
    using that by (simp add: spin_completion_fires fetch_after_update complete_state_def)
  have idle: "spin_completion w t sid = no_effects w"
    if "getSession w t sid = Some s"
       "\<not> (isSpinning (current_game_state w t sid s) \<and> spinData (current_game_state w t sid s) \<noteq> None)"
    for s
    using that by (rule spin_completion_idle)
  have cleared: "spin_completion (world_after (game_action env w t0 (Some (sid, uid)) Clear_all_games)) t sid
            = no_effects (world_after (game_action env w t0 (Some (sid, uid)) Clear_all_games))"
  proof (cases "fetch_game_state w t0 sid")
    case None
    then have "getSession w t0 sid = None"
      by (simp add: fetch_game_state_def split: option.splits)
    then have "getSession w t sid = None"
      using assms by (rule getSession_mono)
    then show ?thesis
      using None by (simp add: game_action_def reply_only_def spin_completion_expired)
  next
    case (Some gs)
    then show ?thesis
      by (simp add: game_action_def clear_all_games_def completion_after_update_idle)
  qed
  show ?thesis
    using fires idle cleared spin_completion_expired by blast
qed

theorem completion_guard_witness:
  "fetch_game_state (world_after (spin_completion world_spin 5000 ''123456'')) 5000 ''123456''
     = Some \<lparr>selectedGames = [chess\<lparr>addedBy := Some ''user-a''\<rparr>], isSpinning = False,
             winner = Some (chess\<lparr>addedBy := Some ''user-a''\<rparr>), spinData = None,
             gameLimit = None, userGameCounts = Some [''user-a'' \<mapsto> Number 1]\<rparr>
   \<and> spin_completion world_chess 5000 ''123456'' = no_effects world_chess
   \<and> spin_completion world0 5000 ''123456'' = no_effects world0
   \<and> spin_completion world_cleared 5000 ''123456'' = no_effects world_cleared"
  using completion_guard [of 3000 5000 world_spin "''123456''" sample_env "''user-a''"]
        completion_guard [of 3000 5000 world_chess "''123456''" sample_env "''user-a''"]
        completion_guard [of 3000 5000 world0 "''123456''" sample_env "''user-a''"]
  apply (simp add: world_cleared_def alice_def)
  apply (simp add: sample_defs world_cleared_def store_defs handler_defs count_defs spin_defs)
  done

subsection \<open>Access to a session whose spin was never completed\<close>






subsection \<open>Rate limiting\<close>

lemma rateLimitKey_inject:
  "0 \<le> a \<Longrightarrow> 0 \<le> b \<Longrightarrow> rateLimitKey addr a = rateLimitKey addr b \<Longrightarrow> a = b"
  by (auto simp add: rateLimitKey_def dest: show_int_inject)

lemma rate_limit_fresh:
  assumes "counters w (rateLimitKey addr now) = None"
  shows "snd (rate_limit w now addr)
       \<and> (\<forall>k. k \<noteq> rateLimitKey addr now \<longrightarrow>
              counters (fst (rate_limit w now addr)) k = counters w k)"
  using assms
  by (simp add: rate_limit_def checkRateLimit_def incr_def expire_def live_counter_def)

lemma receive_all_distinct:
  assumes "distinct ts" and "\<forall>t \<in> set ts. 0 \<le> t"
    and "\<forall>t \<in> set ts. counters w (rateLimitKey addr t) = None"
  shows "receive_all w addr ts = replicate (length ts) True"
  using assms
proof (induction ts arbitrary: w)
  case Nil
  then show ?case by simp
next
  case (Cons t ts)
  obtain w' ok where step: "rate_limit w t addr = (w', ok)"
    by (cases "rate_limit w t addr")
  have fresh: "counters w (rateLimitKey addr t) = None"
    using Cons.prems(3) by simp
  have ok: "ok" and frame: "\<And>k. k \<noteq> rateLimitKey addr t \<Longrightarrow> counters w' k = counters w k"
    using rate_limit_fresh [OF fresh] step by simp_all
  have "counters w' (rateLimitKey addr t') = None" if "t' \<in> set ts" for t'
  proof -
    have "t' \<noteq> t"
      using that Cons.prems(1) by auto
    then have "rateLimitKey addr t' \<noteq> rateLimitKey addr t"
      using rateLimitKey_inject [of t' t addr] that Cons.prems(2) by auto
    then show ?thesis
      using frame that Cons.prems(3) by simp
  qed
  then have "receive_all w' addr ts = replicate (length ts) True"
    using Cons.IH Cons.prems(1,2) by simp
  then show ?case
    using step ok by simp
qed

lemma checkRateLimit_counts:
  "live_counter w now key = Some (v, e) \<Longrightarrow> 1 \<le> v \<Longrightarrow>
   snd (checkRateLimit w now key limit window) = (v + 1 \<le> limit)"
  by (simp add: checkRateLimit_def incr_def)

text \<open>
  C4: the limiter should count the messages of a source per window and reject those beyond
  the limit. \<open>checkRateLimit\<close> does so for the key it is given (\<open>checkRateLimit_counts\<close>),
  but the handler's key ends in \<open>Date.now()\<close>, so two messages received at different
  milliseconds never share a counter and every one of them is the first of its key
  (\<open>receive_all_distinct\<close>). Here one address sends 101 messages, one per millisecond from
  1000 to 1100, all inside one window of 60 seconds: the code admits all 101, where the
  claim has the last one rejected.
\<close>

theorem rate_limit_admits_101:
  "receive_all world0 ''10.0.0.1'' (map int [1000..<1101]) = replicate 101 True"
proof -
  have "receive_all world0 ''10.0.0.1'' (map int [1000..<1101])
          = replicate (length (map int [1000..<1101])) True"
    by (rule receive_all_distinct) (simp_all add: distinct_map world0_def)
  moreover have "length (map int [1000..<1101]) = 101"
    by simp
  ultimately show ?thesis
    by (simp only:)
qed

subsection \<open>Session ids\<close>

lemma candidate_range:
  assumes "0 \<le> r" and "r \<le> 1 - 1 / 2 ^ 53"
  shows "100000 \<le> \<lfloor>js_add 100000 (js_mul r 900000)\<rfloor>
       \<and> \<lfloor>js_add 100000 (js_mul r 900000)\<rfloor> \<le> 999999"
proof -
  define y where "y = r * 900000"
  define Y where "Y = fl y"
  define s where "s = 100000 + Y"
  have y0: "0 \<le> y"
    using assms(1) by (simp add: y_def)
  have y1: "y \<le> 900000 * (1 - 1 / 2 ^ 53)"
    using assms(2) by (simp add: y_def)
  have "\<bar>Y - y\<bar> \<le> \<bar>y\<bar> / 2 ^ 53"
    unfolding Y_def by (rule fl_error)
  moreover have "\<bar>y\<bar> = y"
    using y0 by simp
  ultimately have "Y \<le> y + y / 2 ^ 53"
    by linarith
  then have Yerr: "Y \<le> y * (1 + 1 / 2 ^ 53)"
    by (simp add: distrib_left)
  have Y0: "0 \<le> Y"
    unfolding Y_def using y0 by (rule fl_nonneg)
  have "y * (1 + 1 / 2 ^ 53) \<le> (900000 * (1 - 1 / 2 ^ 53)) * (1 + 1 / 2 ^ 53)"
    using y1 by (intro mult_right_mono) simp_all
  also have "\<dots> < (900000::real)"
    by simp
  finally have Ylt: "Y < 900000"
    using Yerr by linarith
  have s1: "100000 \<le> s" and s2: "s < 1000000"
    using Y0 Ylt by (simp_all add: s_def)
  have snz: "s \<noteq> 0"
    using s1 by simp
  have es: "expo s \<le> 19"
    using s1 s2 by (intro expo_less snz) simp
  have lower: "100000 \<le> fl s"
    using fl_ge_of_int [OF snz, of 100000] es s1 by simp
  have upper: "fl s < 1000000"
  proof (cases "524288 \<le> y")
    case True
    have ynz: "y \<noteq> 0"
      using True by simp
    have ey: "expo y = 19"
      using True y1 by (intro expo_eqI) simp_all
    have Yge: "524288 \<le> Y"
      using fl_ge_of_int [OF ynz, of 524288] ey True by (simp add: Y_def)
    define K where "K = round_half_even (y / 2 powi (expo y - 52))"
    have YK: "Y = real_of_int K / 8589934592"
      by (simp add: Y_def K_def fl_eq [OF ynz] ey power_int_minus_divide)
    have "real_of_int K < 7730941132800000"
      using Ylt by (simp add: YK)
    then have "K \<le> 7730941132799999"
      by linarith
    then have "real_of_int K \<le> 7730941132799999"
      by linarith
    then have Yle: "Y \<le> 7730941132799999 / 8589934592"
      by (simp add: YK)
    have "expo s = 19"
      using Yge s2 by (intro expo_eqI) (simp_all add: s_def)
    moreover have "s \<le> real_of_int 8589934591999999 * 2 powi (19 - 52)"
      using Yle by (simp add: s_def power_int_minus_divide)
    ultimately have "fl s \<le> real_of_int 8589934591999999 * 2 powi (19 - 52)"
      using fl_le_grid [OF snz, of 8589934591999999] by simp
    then show ?thesis
      by (simp add: power_int_minus_divide)
  next
    case False
    have "Y \<le> 524288"
    proof (cases "y = 0")
      case True
      then show ?thesis
        by (simp add: Y_def fl_zero)
    next
      case ynz: False
      have "expo y \<le> 19"
        using y0 False by (intro expo_less ynz) simp
      then show ?thesis
        using fl_le_of_int [OF ynz, of 524288] False by (simp add: Y_def)
    qed
    then have "s \<le> real_of_int 624288"
      by (simp add: s_def)
    then have "fl s \<le> real_of_int 624288"
      using es by (intro fl_le_of_int snz) simp_all
    then show ?thesis
      by simp
  qed
  have fs: "js_add 100000 (js_mul r 900000) = fl s"
    by (simp add: js_add_def js_mul_def s_def Y_def y_def)
  show ?thesis
    using lower upper unfolding fs by (simp add: le_floor_iff floor_less_iff [symmetric])
qed

lemma candidate_id_six_digits:
  assumes "0 \<le> r" and "r \<le> 1 - 1 / 2 ^ 53"
  shows "length (candidate_id r) = 6 \<and> set (candidate_id r) \<subseteq> set ''0123456789''"
proof -
  define c where "c = \<lfloor>js_add 100000 (js_mul r 900000)\<rfloor>"
  have c: "100000 \<le> c" "c \<le> 999999"
    using candidate_range [OF assms] by (simp_all add: c_def)
  then have "10 ^ 5 \<le> nat c" and "nat c < 10 ^ Suc 5"
    by simp_all
  then have "length (show_nat (nat c)) = Suc 5"
    by (rule length_show_nat)
  moreover have "candidate_id r = show_nat (nat c)"
    using c by (simp add: candidate_id_def show_int_def c_def)
  ultimately show ?thesis
    using set_show_nat [of "nat c"] by simp
qed

lemma generateSessionId_find:
  "generateSessionId w rs
     = map_option candidate_id (find (\<lambda>r. connections w (candidate_id r) = None) rs)"
  by (induction rs) (simp_all add: Let_def)

lemma candidate_collides: "candidate_id (733 / 28125) = ''123456''"
proof -
  have "js_mul (733 / 28125) 900000 = 23456"
    by (simp add: fl_eval)
  moreover have "js_add 100000 23456 = 123456"
    by (simp add: fl_eval)
  ultimately show ?thesis
    by (simp add: candidate_id_def show_int_def show_nat.simps digit_char_def)
qed

lemma candidate_half: "candidate_id (1 / 2) = ''550000''"
proof -
  have "js_mul (1 / 2) 900000 = 450000"
    by (simp add: fl_eval)
  moreover have "js_add 100000 450000 = 550000"
    by (simp add: fl_eval)
  ultimately show ?thesis
    by (simp add: candidate_id_def show_int_def show_nat.simps digit_char_def)
qed

text \<open>
  C5, as stated, fails when the id drawn is not a key of this instance's \<open>connections\<close>
  but is already in the \<open>sessions\<close> table: the \<open>INSERT\<close> is refused, the requester is
  told \<open>Failed to create session\<close>, and no other id is drawn. Here the process has
  restarted, so that \<open>connections\<close> is empty while session 123456 is still in the table;
  the first draw gives 123456, and the second, which would give the free id 550000, is
  never made.
\<close>

theorem create_session_counterexample:
  "candidate_id (733 / 28125) = ''123456''
   \<and> connections world_restarted ''123456'' = None
   \<and> sessions world_restarted ''123456'' \<noteq> None
   \<and> candidate_id (1 / 2) = ''550000''
   \<and> sessions world_restarted ''550000'' = None
   \<and> create_session world_restarted 5000 [733 / 28125, 1 / 2]
        = Some (reply_only world_restarted (Error_message ''Failed to create session''))"
proof -
  have conn: "connections world_restarted ''123456'' = None"
    and row: "sessions world_restarted ''123456'' \<noteq> None"
    and free: "sessions world_restarted ''550000'' = None"
    by (simp_all add: world_restarted_def sample_defs store_defs handler_defs)
  have "create_session world_restarted 5000 [733 / 28125, 1 / 2]
        = Some (reply_only world_restarted (Error_message ''Failed to create session''))"
    using conn row
    by (auto simp add: create_session_def candidate_collides Let_def createSession_def
          split: option.splits)
  then show ?thesis
    using conn row free candidate_collides candidate_half by simp
qed

text \<open>
  C5, amended. Let every value of \<open>Math.random()\<close> be a binary64 value in \<open>[0, 1)\<close>, and
  let one of the draws give an id that is not a key of \<open>connections\<close>. Then
  \<open>generateSessionId\<close> returns the candidate of the first such draw, a string of six
  decimal digits that is not a key of \<open>connections\<close>. If no row of the \<open>sessions\<close>
  table has that id, \<open>create_session\<close> stores a row for it, with the default game state
  and an expiry 24 hours later, and replies \<open>session_created\<close> with the id, which now
  names a live session. If a row has the id, nothing is stored, the reply is the error
  \<open>Failed to create session\<close>, and no other id is drawn.
\<close>

theorem create_session_outcome:
  assumes "\<forall>r \<in> set randoms. 0 \<le> r \<and> r \<le> 1 - 1 / 2 ^ 53"
    and "\<exists>r \<in> set randoms. connections w (candidate_id r) = None"
  shows "\<exists>sid. generateSessionId w randoms = Some sid
           \<and> find (\<lambda>r. connections w (candidate_id r) = None) randoms \<noteq> None
           \<and> sid = candidate_id (the (find (\<lambda>r. connections w (candidate_id r) = None) randoms))
           \<and> length sid = 6 \<and> set sid \<subseteq> set ''0123456789''
           \<and> connections w sid = None
           \<and> (sessions w sid = None \<longrightarrow>
                create_session w now randoms
                  = Some (reply_only
                      (w\<lparr>sessions := (sessions w)(sid \<mapsto>
                           \<lparr>game_state = default_game_state, created_at = now, updated_at = now,
                            expires_at = now + 86400000\<rparr>)\<rparr>)
                      (Session_created sid))
              \<and> getSession (world_after (the (create_session w now randoms))) now sid \<noteq> None)
           \<and> (sessions w sid \<noteq> None \<longrightarrow>
                create_session w now randoms
                  = Some (reply_only w (Error_message ''Failed to create session'')))"
proof -
  obtain r where f: "find (\<lambda>r. connections w (candidate_id r) = None) randoms = Some r"
    using assms(2) by (cases "find (\<lambda>r. connections w (candidate_id r) = None) randoms")
      (auto simp add: find_None_iff)
  define sid where "sid = candidate_id r"
  have g: "generateSessionId w randoms = Some sid"
    by (simp add: generateSessionId_find f sid_def)
  have r: "r \<in> set randoms" and free: "connections w sid = None"
    using f by (auto simp add: find_Some_iff sid_def)
  have digits: "length sid = 6 \<and> set sid \<subseteq> set ''0123456789''"
    using candidate_id_six_digits [of r] assms(1) r by (simp add: sid_def)
  have stored: "create_session w now randoms
                  = Some (reply_only
                      (w\<lparr>sessions := (sessions w)(sid \<mapsto>
                           \<lparr>game_state = default_game_state, created_at = now, updated_at = now,
                            expires_at = now + 86400000\<rparr>)\<rparr>)
                      (Session_created sid))
              \<and> getSession (world_after (the (create_session w now randoms))) now sid \<noteq> None"
    if "sessions w sid = None"
    using that g
    by (simp add: create_session_def createSession_def hours24_def reply_only_def getSession_def)
  have refused: "create_session w now randoms
                  = Some (reply_only w (Error_message ''Failed to create session''))"
    if "sessions w sid \<noteq> None"
    using that g by (auto simp add: create_session_def createSession_def)
  show ?thesis
    using g f digits free stored refused by (auto simp add: sid_def)
qed

theorem create_session_outcome_witness:
  "candidate_id (733 / 28125) = ''123456''
   \<and> connections world_joined ''123456'' \<noteq> None
   \<and> generateSessionId world_joined [733 / 28125, 1 / 2] = Some ''550000''
   \<and> connections world_joined ''550000'' = None
   \<and> sessions world_joined ''550000'' = None
   \<and> map_option replies (create_session world_joined 5000 [733 / 28125, 1 / 2])
        = Some [Session_created ''550000'']
   \<and> getSession (world_after (the (create_session world_joined 5000 [733 / 28125, 1 / 2])))
        5000 ''550000'' \<noteq> None
   \<and> create_session world_restarted 5000 [733 / 28125]
        = Some (reply_only world_restarted (Error_message ''Failed to create session''))"
proof -
  have range: "\<forall>r \<in> set [733 / 28125, 1 / 2 :: real]. 0 \<le> r \<and> r \<le> 1 - 1 / 2 ^ 53"
    and range': "\<forall>r \<in> set [733 / 28125 :: real]. 0 \<le> r \<and> r \<le> 1 - 1 / 2 ^ 53"
    by simp_all
  have conn: "connections world_joined ''123456'' \<noteq> None"
    and free: "connections world_joined ''550000'' = None"
    and absent: "sessions world_joined ''550000'' = None"
    by (simp_all add: sample_defs store_defs handler_defs)
  have conn': "connections world_restarted ''123456'' = None"
    and row': "sessions world_restarted ''123456'' \<noteq> None"
    by (simp_all add: world_restarted_def sample_defs store_defs handler_defs)
  have first: "find (\<lambda>r. connections world_joined (candidate_id r) = None) [733 / 28125, 1 / 2]
                 = Some (1 / 2)"
    using conn free by (simp add: candidate_collides candidate_half)
  have first': "find (\<lambda>r. connections world_restarted (candidate_id r) = None) [733 / 28125]
                 = Some (733 / 28125)"
    using conn' by (simp add: candidate_collides)
  have some: "\<exists>r \<in> set [733 / 28125, 1 / 2 :: real]. connections world_joined (candidate_id r) = None"
    using free by (simp add: candidate_half)
  have some': "\<exists>r \<in> set [733 / 28125 :: real]. connections world_restarted (candidate_id r) = None"
    using conn' by (simp add: candidate_collides)
  from create_session_outcome [OF range some, of 5000]
  obtain sid where all: "generateSessionId world_joined [733 / 28125, 1 / 2] = Some sid
           \<and> find (\<lambda>r. connections world_joined (candidate_id r) = None) [733 / 28125, 1 / 2] \<noteq> None
           \<and> sid = candidate_id (the (find (\<lambda>r. connections world_joined (candidate_id r) = None)
                                        [733 / 28125, 1 / 2]))
           \<and> length sid = 6 \<and> set sid \<subseteq> set ''0123456789''
           \<and> connections world_joined sid = None
           \<and> (sessions world_joined sid = None \<longrightarrow>
                create_session world_joined 5000 [733 / 28125, 1 / 2]
                  = Some (reply_only
                      (world_joined\<lparr>sessions := (sessions world_joined)(sid \<mapsto>
                           \<lparr>game_state = default_game_state, created_at = 5000, updated_at = 5000,
                            expires_at = 5000 + 86400000\<rparr>)\<rparr>)
                      (Session_created sid))
              \<and> getSession (world_after (the (create_session world_joined 5000
                                                 [733 / 28125, 1 / 2]))) 5000 sid \<noteq> None)
           \<and> (sessions world_joined sid \<noteq> None \<longrightarrow>
                create_session world_joined 5000 [733 / 28125, 1 / 2]
                  = Some (reply_only world_joined (Error_message ''Failed to create session'')))" ..
  note g = all [THEN conjunct1]
  note sid = all [THEN conjunct2, THEN conjunct2, THEN conjunct1]
  note stored = all [THEN conjunct2, THEN conjunct2, THEN conjunct2, THEN conjunct2,
                     THEN conjunct2, THEN conjunct2, THEN conjunct1]
  have sid': "sid = ''550000''"
    unfolding sid first by (simp add: candidate_half)
  have drawn: "generateSessionId world_joined [733 / 28125, 1 / 2] = Some ''550000''"
    using g unfolding sid' .
  have both: "create_session world_joined 5000 [733 / 28125, 1 / 2]
                  = Some (reply_only
                      (world_joined\<lparr>sessions := (sessions world_joined)(''550000'' \<mapsto>
                           \<lparr>game_state = default_game_state, created_at = 5000, updated_at = 5000,
                            expires_at = 5000 + 86400000\<rparr>)\<rparr>)
                      (Session_created ''550000''))
              \<and> getSession (world_after (the (create_session world_joined 5000
                                                 [733 / 28125, 1 / 2]))) 5000 ''550000'' \<noteq> None"
    using stored absent unfolding sid' by (rule mp)
  have sent: "map_option replies (create_session world_joined 5000 [733 / 28125, 1 / 2])
        = Some [Session_created ''550000'']"
    using both [THEN conjunct1] by (simp add: reply_only_def)
  note live = both [THEN conjunct2]
  from create_session_outcome [OF range' some', of 5000]
  obtain sid2 where all2: "generateSessionId world_restarted [733 / 28125] = Some sid2
           \<and> find (\<lambda>r. connections world_restarted (candidate_id r) = None) [733 / 28125] \<noteq> None
           \<and> sid2 = candidate_id (the (find (\<lambda>r. connections world_restarted (candidate_id r) = None)
                                        [733 / 28125]))
           \<and> length sid2 = 6 \<and> set sid2 \<subseteq> set ''0123456789''
           \<and> connections world_restarted sid2 = None
           \<and> (sessions world_restarted sid2 = None \<longrightarrow>
                create_session world_restarted 5000 [733 / 28125]
                  = Some (reply_only
                      (world_restarted\<lparr>sessions := (sessions world_restarted)(sid2 \<mapsto>
                           \<lparr>game_state = default_game_state, created_at = 5000, updated_at = 5000,
                            expires_at = 5000 + 86400000\<rparr>)\<rparr>)
                      (Session_created sid2))
              \<and> getSession (world_after (the (create_session world_restarted 5000
                                                 [733 / 28125]))) 5000 sid2 \<noteq> None)
           \<and> (sessions world_restarted sid2 \<noteq> None \<longrightarrow>
                create_session world_restarted 5000 [733 / 28125]
                  = Some (reply_only world_restarted (Error_message ''Failed to create session'')))" ..
  note sid2 = all2 [THEN conjunct2, THEN conjunct2, THEN conjunct1]
  note refusal = all2 [THEN conjunct2, THEN conjunct2, THEN conjunct2, THEN conjunct2,
                     THEN conjunct2, THEN conjunct2, THEN conjunct2]
  have "sid2 = ''123456''"
    unfolding sid2 first' by (simp add: candidate_collides)
  then have refused: "create_session world_restarted 5000 [733 / 28125]
        = Some (reply_only world_restarted (Error_message ''Failed to create session''))"
    using refusal row' by simp
  show ?thesis
    using candidate_collides conn free absent drawn sent live refused by blast
qed

subsection \<open>Adding a game whose name is taken\<close>

text \<open>
  C6, as stated, fails in its last part: the handler has no \<open>else\<close> branch for a name
  that is already present, so nothing is sent to the requester. Here the second user adds
  ``Chess'' after the first did.
\<close>

theorem duplicate_reply_counterexample:
  "''Chess'' \<in> name ` set (selectedGames (the (fetch_game_state world_chess 1500 ''123456'')))
   \<and> name chess = ''Chess''
   \<and> replies (game_action sample_env world_chess 1500 bob (Add_game chess)) = []"
  by (simp add: sample_defs store_defs handler_defs)

text \<open>
  C6, amended. An \<open>add_game\<close> whose name is already among \<open>selectedGames\<close> changes no
  game state (neither the session's row nor its cached state is written) and is dropped
  silently: no reply to the requester, no broadcast, no timer.
\<close>

theorem duplicate_dropped:
  assumes "fetch_game_state w now sid = Some gs" and "name g \<in> name ` set (selectedGames gs)"
  shows "world_after (game_action env w now (Some (sid, uid)) (Add_game g)) = w
       \<and> replies (game_action env w now (Some (sid, uid)) (Add_game g)) = []
       \<and> broadcasts (game_action env w now (Some (sid, uid)) (Add_game g)) = []
       \<and> timers (game_action env w now (Some (sid, uid)) (Add_game g)) = []"
  using assms by (simp add: game_action_def add_game_def has_name_iff no_effects_def)

theorem duplicate_dropped_witness:
  "fetch_game_state world_chess 1500 ''123456'' \<noteq> None
   \<and> name chess \<in> name ` set (selectedGames (the (fetch_game_state world_chess 1500 ''123456'')))
   \<and> world_after (game_action sample_env world_chess 1500 bob (Add_game chess)) = world_chess
   \<and> replies (game_action sample_env world_chess 1500 bob (Add_game chess)) = []
   \<and> broadcasts (game_action sample_env world_chess 1500 bob (Add_game chess)) = []"
proof -
  obtain gs where gs: "fetch_game_state world_chess 1500 ''123456'' = Some gs"
    by (simp add: sample_defs store_defs handler_defs)
  have dup: "name chess \<in> name ` set (selectedGames gs)"
    using gs by (auto simp add: sample_defs store_defs handler_defs)
  show ?thesis
    using duplicate_dropped [OF gs dup, of sample_env "''user-b''"] gs dup
    by (simp add: bob_def)
qed

subsection \<open>The per-member limit\<close>








text \<open>
  A member id that names a property of \<open>Object.prototype\<close> is read from the prototype as
  long as \<open>userGameCounts\<close> has no number for it: the value read is an object or a string,
  the test against the limit compares \<open>NaN\<close> and fails, and the value stored is again a
  string. An \<open>add_game\<close> of a new name by such a member is accepted whatever the limit, and
  so is the next one.
\<close>

lemma inherited_id_not_limited:
  assumes "fetch_game_state w now sid = Some gs" and "inherited_key uid"
    and "\<forall>n. counts gs uid \<noteq> Some (Number n)"
    and "name g \<notin> name ` set (selectedGames gs)"
  shows "replies (game_action env w now (Some (sid, uid)) (Add_game g)) = []
       \<and> (\<exists>gs'. fetch_game_state (world_after (game_action env w now (Some (sid, uid)) (Add_game g)))
                   now sid = Some gs'
               \<and> selectedGames gs' = selectedGames gs @ [g\<lparr>addedBy := Some uid\<rparr>]
               \<and> gameLimit gs' = gameLimit gs
               \<and> (\<forall>n. counts gs' uid \<noteq> Some (Number n)))"
proof -
  have live: "getSession w now sid \<noteq> None"
    using assms(1) by (rule fetch_live)
  have open_slot: "\<not> limit_reached (gameLimit gs) (or_zero (read_count (counts gs) uid))"
    using assms(2,3)
    by (cases "counts gs uid")
       (auto simp add: limit_reached_def at_least_def or_zero_def read_count_def inherited_key_def
          split: option.splits count_value.splits)
  have run: "game_action env w now (Some (sid, uid)) (Add_game g)
      = updateGameStateAndBroadcast w now sid
          (gs\<lparr>selectedGames := selectedGames gs @ [g\<lparr>addedBy := Some uid\<rparr>],
              userGameCounts := Some (increment_count (counts gs) uid)\<rparr>)"
    using assms(1,4) open_slot by (simp add: game_action_def add_game_def has_name_iff)
  have still: "increment_count (counts gs) uid uid \<noteq> Some (Number n)" for n
    using assms(2,3)
    by (cases "counts gs uid")
       (auto simp add: increment_count_def read_count_def inherited_key_def
          split: count_value.splits)
  show ?thesis
    using live still
    by (simp add: run fetch_after_update ensure_counts_def counts_def)
       (simp add: updateGameStateAndBroadcast_def)
qed

text \<open>
  In the sample session, with the limit 1, the member \<open>constructor\<close> adds two games.
\<close>

lemma constructor_not_limited:
  "gameLimit (the (fetch_game_state world_limit_one 1300 ''123456'')) = Some 1
   \<and> replies (game_action sample_env world_limit_one 1300 carol (Add_game go)) = []
   \<and> map_option string_of (counts (the (fetch_game_state world_inherited 1400 ''123456''))
        ''constructor'') = Some ''function Object() { [native code] }1''
   \<and> replies (game_action sample_env world_inherited 1400 carol (Add_game hex)) = []
   \<and> map (\<lambda>g. (name g, addedBy g)) (selectedGames (the (fetch_game_state
        (world_after (game_action sample_env world_inherited 1400 carol (Add_game hex)))
        1400 ''123456'')))
       = [(''Chess'', Some ''user-a''), (''Go'', Some ''constructor''),
          (''Hex'', Some ''constructor'')]
   \<and> map_option string_of (counts (the (fetch_game_state
        (world_after (game_action sample_env world_inherited 1400 carol (Add_game hex)))
        1400 ''123456'')) ''constructor'') = Some ''function Object() { [native code] }11''"
  by (simp add: sample_defs world_limit_one_def world_inherited_def carol_def hex_def
        set_game_limit_def getSessionUsers_def store_defs handler_defs count_defs
        string_of_def native_code_def)




subsection \<open>The rotation of a spin\<close>

lemma Math_PI_bounds: "3 < Math_PI" "Math_PI < 4"
  by (simp_all add: Math_PI_def)

lemma arctan_partial_sums:
  fixes x :: real
  assumes "0 < x" and "x \<le> 1"
  shows "(\<Sum>i<2 * n. (- 1) ^ i * (1 / real (i * 2 + 1) * x ^ (i * 2 + 1))) \<le> arctan x"
    and "arctan x \<le> (\<Sum>i<2 * n + 1. (- 1) ^ i * (1 / real (i * 2 + 1) * x ^ (i * 2 + 1)))"
proof -
  let ?a = "\<lambda>i. 1 / real (i * 2 + 1) * x ^ (i * 2 + 1)"
  have x: "\<bar>x\<bar> \<le> 1"
    using assms by simp
  have pos: "0 < ?a 0"
    using assms(1) by simp
  have "\<forall>n. (\<Sum>i. (- 1) ^ i * ?a i)
          \<in> {\<Sum>i<2 * n. (- 1) ^ i * ?a i .. \<Sum>i<2 * n + 1. (- 1) ^ i * ?a i}"
    using summable_Leibniz(2) [OF zeroseq_arctan_series [OF x] monoseq_arctan_series [OF x]] pos
    by blast
  then have "arctan x \<in> {\<Sum>i<2 * n. (- 1) ^ i * ?a i .. \<Sum>i<2 * n + 1. (- 1) ^ i * ?a i}"
    by (simp only: arctan_series [OF x])
  then show "(\<Sum>i<2 * n. (- 1) ^ i * ?a i) \<le> arctan x"
    and "arctan x \<le> (\<Sum>i<2 * n + 1. (- 1) ^ i * ?a i)"
    by simp_all
qed

lemma sum_upto_8: "(\<Sum>i<(8::nat). f i) = f 0 + f 1 + f 2 + f 3 + f 4 + f 5 + f 6 + (f 7 :: real)"
  by (simp add: eval_nat_numeral)

lemma sum_upto_2: "(\<Sum>i<(2::nat). f i) = f 0 + (f 1 :: real)"
  by (simp add: eval_nat_numeral)

lemma sum_upto_9:
  "(\<Sum>i<(9::nat). f i) = f 0 + f 1 + f 2 + f 3 + f 4 + f 5 + f 6 + f 7 + (f 8 :: real)"
  by (simp add: eval_nat_numeral)

lemma sum_upto_3: "(\<Sum>i<(3::nat). f i) = f 0 + f 1 + (f 2 :: real)"
  by (simp add: eval_nat_numeral)

lemma arctan_5_bounds:
  "271352630414872 / 1374664306640625 \<le> arctan (1 / 5)"
  "arctan (1 / 5) \<le> 23064973585273129 / 116846466064453125"
proof -
  have lo: "(\<Sum>i<2 * 4. (- 1) ^ i * (1 / real (i * 2 + 1) * (1 / 5) ^ (i * 2 + 1)))
              = (271352630414872 / 1374664306640625 :: real)"
    by (simp add: sum_upto_8 power_divide)
  have hi: "(\<Sum>i<2 * 4 + 1. (- 1) ^ i * (1 / real (i * 2 + 1) * (1 / 5) ^ (i * 2 + 1)))
              = (23064973585273129 / 116846466064453125 :: real)"
    by (simp add: sum_upto_9 power_divide)
  show "271352630414872 / 1374664306640625 \<le> arctan (1 / 5)"
    using arctan_partial_sums(1) [of "1 / 5" 4] by (simp only: lo)
  show "arctan (1 / 5) \<le> 23064973585273129 / 116846466064453125"
    using arctan_partial_sums(2) [of "1 / 5" 4] by (simp only: hi)
qed

lemma arctan_239_bounds:
  "171362 / 40955757 \<le> arctan (1 / 239)"
  "arctan (1 / 239) \<le> 48941844013 / 11697168977985"
proof -
  have lo: "(\<Sum>i<2 * 1. (- 1) ^ i * (1 / real (i * 2 + 1) * (1 / 239) ^ (i * 2 + 1)))
              = (171362 / 40955757 :: real)"
    by (simp add: sum_upto_2 power_divide)
  have hi: "(\<Sum>i<2 * 1 + 1. (- 1) ^ i * (1 / real (i * 2 + 1) * (1 / 239) ^ (i * 2 + 1)))
              = (48941844013 / 11697168977985 :: real)"
    by (simp add: sum_upto_3 power_divide)
  show "171362 / 40955757 \<le> arctan (1 / 239)"
    using arctan_partial_sums(1) [of "1 / 239" 1] by (simp only: lo)
  show "arctan (1 / 239) \<le> 48941844013 / 11697168977985"
    using arctan_partial_sums(2) [of "1 / 239" 1] by (simp only: hi)
qed

text \<open>\<open>Math.PI\<close> against \<open>\<pi>\<close>, by Machin's formula and the series of the arctangent.\<close>

lemma Math_PI_near_pi:
  "Math_PI - 3 / 10 ^ 12 \<le> pi" "pi \<le> Math_PI + 3 / 10 ^ 12"
proof -
  have m: "pi = 16 * arctan (1 / 5) - 4 * arctan (1 / 239)"
    using machin by simp
  have "16 * (271352630414872 / 1374664306640625) - 4 * (48941844013 / 11697168977985)
          \<le> 16 * arctan (1 / 5) - 4 * arctan (1 / 239)"
    using arctan_5_bounds(1) arctan_239_bounds(2) by linarith
  moreover have "Math_PI - 3 / 10 ^ 12
          \<le> 16 * (271352630414872 / 1374664306640625) - 4 * (48941844013 / 11697168977985)"
    by (simp add: Math_PI_def)
  ultimately show "Math_PI - 3 / 10 ^ 12 \<le> pi"
    unfolding m by linarith
  have "16 * arctan (1 / 5) - 4 * arctan (1 / 239)
          \<le> 16 * (23064973585273129 / 116846466064453125) - 4 * (171362 / 40955757)"
    using arctan_5_bounds(2) arctan_239_bounds(1) by linarith
  moreover have "16 * (23064973585273129 / 116846466064453125) - 4 * (171362 / 40955757)
          \<le> Math_PI + 3 / 10 ^ 12"
    by (simp add: Math_PI_def)
  ultimately show "pi \<le> Math_PI + 3 / 10 ^ 12"
    unfolding m by linarith
qed

lemma rotation_error:
  assumes n: "0 < n" and i: "i < n"
  shows "\<bar>real i * anglePerSection n + baseRotation_of n i + anglePerSection n / 2
          - (- Math_PI / 2)\<bar> \<le> 52 / 2 ^ 53"
    and "\<bar>js_add (js_add (js_mul (real i) (anglePerSection n)) (baseRotation_of n i))
               (js_div (anglePerSection n) 2) - (- Math_PI / 2)\<bar> \<le> 140 / 2 ^ 53"
    and "\<bar>baseRotation_of n i
          - (- Math_PI / 2 - real i * (2 * Math_PI / real n) - (2 * Math_PI / real n) / 2)\<bar>
           \<le> 78 / 2 ^ 53"
proof -
  define eps :: real where "eps = 1 / 2 ^ 53"
  have eps: "0 < eps" "eps \<le> 1 / 100"
    by (simp_all add: eps_def)
  have err: "\<bar>fl x - x\<bar> \<le> K * eps" if "\<bar>x\<bar> \<le> K" for x K
    using fl_error_bound [OF that] by (simp add: eps_def)
  define T where "T = js_mul 2 Math_PI"
  define a where "a = anglePerSection n"
  define H where "H = js_div (- Math_PI) 2"
  define M where "M = js_mul (real i) a"
  define S where "S = js_sub H M"
  define D where "D = js_div a 2"
  define B where "B = baseRotation_of n i"
  define F1 where "F1 = js_add M B"
  define F2 where "F2 = js_add F1 D"
  have a_eq: "a = fl (T / real n)"
    by (simp add: a_def anglePerSection_def T_def js_div_def)
  have B_eq: "B = fl (S - D)"
    by (simp add: B_def baseRotation_of_def S_def D_def H_def M_def a_def js_sub_def)
  have nn: "1 \<le> real n"
    using n by simp
  \<comment> \<open>\<open>2 * Math.PI\<close>\<close>
  have T1: "\<bar>T - 2 * Math_PI\<bar> \<le> 8 * eps"
    unfolding T_def js_mul_def using Math_PI_bounds by (intro err) simp
  have T2: "0 \<le> T" "T \<le> 9"
    using T1 eps Math_PI_bounds by linarith+
  \<comment> \<open>\<open>anglePerSection\<close>\<close>
  have x0: "0 \<le> T / real n"
    using T2 nn by simp
  have xa: "\<bar>a - T / real n\<bar> \<le> (T / real n) * eps"
    using fl_error [of "T / real n"] x0 by (simp add: a_eq eps_def)
  have a0: "0 \<le> a"
  proof -
    have "(T / real n) * eps \<le> T / real n"
      using x0 eps by (intro mult_right_le_one_le) simp_all
    then show ?thesis
      using xa by linarith
  qed
  have na: "real n * a \<le> 10"
  proof -
    have "a \<le> T / real n + (T / real n) * eps"
      using xa by linarith
    then have "a \<le> (T / real n) * (1 + eps)"
      by (simp add: distrib_left)
    then have "real n * a \<le> real n * ((T / real n) * (1 + eps))"
      using nn by (intro mult_left_mono) simp_all
    also have "\<dots> = T * (1 + eps)"
      using nn by simp
    also have "\<dots> \<le> 9 * (1 + 1 / 100)"
      using T2 eps by (intro mult_mono) simp_all
    finally show ?thesis
      by simp
  qed
  have ia: "0 \<le> real i * a" "real i * a \<le> 10"
  proof -
    show "0 \<le> real i * a"
      using a0 by simp
    have "real i * a \<le> real n * a"
      using i a0 by (intro mult_right_mono) simp_all
    then show "real i * a \<le> 10"
      using na by linarith
  qed
  have a10: "a \<le> 10"
  proof -
    have "1 * a \<le> real n * a"
      using nn a0 by (intro mult_right_mono) simp_all
    then show ?thesis
      using na by linarith
  qed
  \<comment> \<open>the terms of \<open>baseRotation\<close>\<close>
  have H1: "\<bar>H - (- Math_PI / 2)\<bar> \<le> 2 * eps"
    unfolding H_def js_div_def using Math_PI_bounds by (intro err) simp
  have H2: "\<bar>H\<bar> \<le> 3"
    using H1 eps Math_PI_bounds by linarith
  have M1: "\<bar>M - real i * a\<bar> \<le> 10 * eps"
    unfolding M_def js_mul_def using ia by (intro err) simp
  have M2: "\<bar>M\<bar> \<le> 11"
    using M1 ia eps by linarith
  have S1: "\<bar>S - (H - M)\<bar> \<le> 14 * eps"
    unfolding S_def js_sub_def using H2 M2 by (intro err) linarith
  have S2: "\<bar>S\<bar> \<le> 15"
    using S1 H2 M2 eps by linarith
  have D1: "\<bar>D - a / 2\<bar> \<le> 5 * eps"
    unfolding D_def js_div_def using a0 a10 by (intro err) simp
  have D2: "\<bar>D\<bar> \<le> 6"
    using D1 a0 a10 eps by linarith
  have B1: "\<bar>B - (S - D)\<bar> \<le> 21 * eps"
    unfolding B_eq using S2 D2 by (intro err) linarith
  have B2: "\<bar>B\<bar> \<le> 22"
    using B1 S2 D2 eps by linarith
  have mid: "\<bar>real i * a + B + a / 2 - (- Math_PI / 2)\<bar> \<le> 52 * eps"
    using B1 S1 H1 M1 D1 by linarith
  \<comment> \<open>the same sum, computed in floating point\<close>
  have F11: "\<bar>F1 - (M + B)\<bar> \<le> 33 * eps"
    unfolding F1_def js_add_def using M2 B2 by (intro err) linarith
  have F12: "\<bar>F1\<bar> \<le> 34"
    using F11 M2 B2 eps by linarith
  have F21: "\<bar>F2 - (F1 + D)\<bar> \<le> 40 * eps"
    unfolding F2_def js_add_def using F12 D2 by (intro err) linarith
  have fmid: "\<bar>F2 - (- Math_PI / 2)\<bar> \<le> 140 * eps"
    using F21 F11 mid M1 D1 by linarith
  show "\<bar>real i * anglePerSection n + baseRotation_of n i + anglePerSection n / 2
          - (- Math_PI / 2)\<bar> \<le> 52 / 2 ^ 53"
    using mid by (simp add: a_def B_def eps_def)
  show "\<bar>js_add (js_add (js_mul (real i) (anglePerSection n)) (baseRotation_of n i))
               (js_div (anglePerSection n) 2) - (- Math_PI / 2)\<bar> \<le> 140 / 2 ^ 53"
    using fmid by (simp add: F2_def F1_def M_def D_def a_def B_def eps_def)
  \<comment> \<open>against the formula taken exactly\<close>
  define q where "q = eps / real n"
  have q: "0 \<le> q" "q \<le> eps" "real i * q \<le> eps"
  proof -
    show "0 \<le> q"
      using eps nn by (simp add: q_def)
    show "q \<le> eps"
      using eps nn by (simp add: q_def field_simps)
    have "real i * eps \<le> real n * eps"
      using i eps by (intro mult_right_mono) simp_all
    then show "real i * q \<le> eps"
      using nn by (simp add: q_def field_simps)
  qed
  have d1: "\<bar>a - T / real n\<bar> \<le> 9 * q"
  proof -
    have "(T / real n) * eps = T * q"
      by (simp add: q_def)
    moreover have "T * q \<le> 9 * q"
      using T2 q(1) by (intro mult_right_mono) simp_all
    ultimately show ?thesis
      using xa by linarith
  qed
  have d2: "\<bar>T / real n - 2 * Math_PI / real n\<bar> \<le> 8 * q"
  proof -
    have "T / real n - 2 * Math_PI / real n = (T - 2 * Math_PI) / real n"
      by (simp add: diff_divide_distrib)
    then have "\<bar>T / real n - 2 * Math_PI / real n\<bar> = \<bar>T - 2 * Math_PI\<bar> / real n"
      using nn by simp
    also have "\<dots> \<le> (8 * eps) / real n"
      using T1 nn by (intro divide_right_mono) simp_all
    finally show ?thesis
      by (simp add: q_def)
  qed
  define z where "z = 2 * Math_PI / real n"
  have d: "\<bar>a - z\<bar> \<le> 17 * q"
    unfolding z_def using d1 d2 by linarith
  have id: "\<bar>real i * a - real i * z\<bar> \<le> 17 * eps"
  proof -
    have "\<bar>real i * a - real i * z\<bar> = \<bar>real i * (a - z)\<bar>"
      by (simp only: right_diff_distrib)
    also have "\<dots> = real i * \<bar>a - z\<bar>"
      by (simp only: abs_mult abs_of_nat)
    also have "\<dots> \<le> real i * (17 * q)"
      using d by (intro mult_left_mono) simp_all
    finally show ?thesis
      using q(3) by linarith
  qed
  have hd: "\<bar>a / 2 - z / 2\<bar> \<le> 9 * eps"
    using d q(2) by linarith
  have "\<bar>B - (- Math_PI / 2 - real i * z - z / 2)\<bar> \<le> 78 * eps"
    using B1 S1 H1 M1 D1 id hd by linarith
  then show "\<bar>baseRotation_of n i
          - (- Math_PI / 2 - real i * (2 * Math_PI / real n) - (2 * Math_PI / real n) / 2)\<bar>
           \<le> 78 / 2 ^ 53"
    by (simp only: B_def eps_def z_def)
qed

lemma length_insert_game: "length (insert_game cmp g gs) = Suc (length gs)"
  by (induction gs) simp_all

lemma length_sort_games: "length (sort_games cmp gs) = length gs"
  by (induction gs) (simp_all add: sort_games_def length_insert_game)

lemma set_insert_game: "set (insert_game cmp g gs) = insert g (set gs)"
  by (induction gs) auto

lemma set_sort_games: "set (sort_games cmp gs) = set gs"
  by (induction gs) (simp_all add: sort_games_def set_insert_game)

text \<open>
  With a comparison that is total and transitive, as \<open>localeCompare\<close> is, the list the
  winner is drawn from is in ascending order of name.
\<close>

lemma sorted_insert_game:
  assumes total: "\<And>a b. cmp a b \<le> 0 \<or> cmp b a \<le> 0"
    and trans: "\<And>a b c. cmp a b \<le> 0 \<Longrightarrow> cmp b c \<le> 0 \<Longrightarrow> cmp a c \<le> 0"
    and "sorted_wrt (\<lambda>g h. cmp (name g) (name h) \<le> 0) gs"
  shows "sorted_wrt (\<lambda>g h. cmp (name g) (name h) \<le> 0) (insert_game cmp g gs)"
  using assms(3)
proof (induction gs)
  case Nil
  then show ?case
    by simp
next
  case (Cons h hs)
  show ?case
  proof (cases "cmp (name g) (name h) \<le> 0")
    case True
    then have "\<forall>x \<in> set hs. cmp (name g) (name x) \<le> 0"
      using Cons.prems trans by auto
    then show ?thesis
      using True Cons.prems by simp
  next
    case False
    then have "cmp (name h) (name g) \<le> 0"
      using total [of "name g" "name h"] by simp
    then show ?thesis
      using False Cons by (simp add: set_insert_game)
  qed
qed

lemma sorted_sort_games:
  assumes "\<And>a b. cmp a b \<le> 0 \<or> cmp b a \<le> 0"
    and "\<And>a b c. cmp a b \<le> 0 \<Longrightarrow> cmp b c \<le> 0 \<Longrightarrow> cmp a c \<le> 0"
  shows "sorted_wrt (\<lambda>g h. cmp (name g) (name h) \<le> 0) (sort_games cmp gs)"
proof (induction gs)
  case Nil
  then show ?case
    by (simp add: sort_games_def)
next
  case (Cons g gs)
  show ?case
    using sorted_insert_game [OF assms Cons.IH, where g = g]
    by (simp add: sort_games_def)
qed

text \<open>
  \<open>Math.random()\<close> returns a binary64 value in \<open>[0, 1)\<close>, so at most \<open>1 - 2\<^sup>-\<^sup>5\<^sup>3\<close>;
  the index drawn from it is then below \<open>n\<close>.
\<close>

lemma winningIndex_less:
  assumes "0 < n" and "0 \<le> random_index env" and "random_index env \<le> 1 - 1 / 2 ^ 53"
  shows "winningIndex env n < n"
proof -
  let ?y = "random_index env * real n"
  have y0: "0 \<le> ?y"
    using assms(2) by simp
  have "?y \<le> (1 - 1 / 2 ^ 53) * real n"
    using assms(3) by (intro mult_right_mono) simp_all
  then have y1: "?y \<le> real n - real n / 2 ^ 53"
    by (simp add: algebra_simps)
  have "\<bar>fl ?y - ?y\<bar> \<le> \<bar>?y\<bar> / 2 ^ 53"
    by (rule fl_error)
  moreover have "\<bar>?y\<bar> = ?y"
    using y0 by simp
  ultimately have "fl ?y - ?y \<le> ?y / 2 ^ 53"
    by linarith
  moreover have "?y / 2 ^ 53 < real n / 2 ^ 53"
    using y1 assms(1) by (simp add: divide_strict_right_mono)
  ultimately have "fl ?y < real n"
    using y1 by linarith
  then have "\<lfloor>fl ?y\<rfloor> < int n"
    by (simp add: floor_less_iff)
  then show ?thesis
    using assms(1) by (simp add: winningIndex_def js_mul_def)
qed

lemma anglePerSection_3: "anglePerSection 3 = 4716158501352293 / 2251799813685248"
  by (simp add: anglePerSection_def Math_PI_def fl_eval)

lemma baseRotation_3_1: "baseRotation_of 3 1 = - 2652839157010665 / 562949953421312"
  by (simp add: baseRotation_of_def anglePerSection_3 Math_PI_def) (simp add: fl_eval)

text \<open>
  C8. For \<open>n > 0\<close> games and a winning index \<open>i < n\<close>, \<open>baseRotation\<close> is the binary64
  evaluation of \<open>-\<pi>/2 - i * (2\<pi>/n) - (2\<pi>/n)/2\<close> (with \<open>Math.PI\<close> for \<open>\<pi>\<close>) and is within
  \<open>10\<^sup>-\<^sup>9\<close> of that expression taken over the reals; the midpoint of sector \<open>i\<close>,
  \<open>i * anglePerSection + baseRotation + anglePerSection/2\<close>, is within \<open>10\<^sup>-\<^sup>9\<close> of the
  pointer angle \<open>-\<pi>/2\<close>, whether the sum is taken exactly or in binary64 as the client
  takes it. \<open>start_spin\<close> stores this \<open>baseRotation\<close> together with the game at index \<open>i\<close>
  of the list sorted by name.
\<close>

theorem spin_rotation_on_pointer:
  assumes "0 < n" and "i < n"
  shows "baseRotation_of n i
           = js_sub (js_sub (js_div (- Math_PI) 2)
                            (js_mul (real i) (js_div (js_mul 2 Math_PI) (real n))))
                    (js_div (js_div (js_mul 2 Math_PI) (real n)) 2)
       \<and> \<bar>baseRotation_of n i - (- pi / 2 - real i * (2 * pi / real n) - (2 * pi / real n) / 2)\<bar>
            \<le> 1 / 10 ^ 9
       \<and> \<bar>real i * anglePerSection n + baseRotation_of n i + anglePerSection n / 2
            - (- pi / 2)\<bar> \<le> 1 / 10 ^ 9
       \<and> \<bar>js_add (js_add (js_mul (real i) (anglePerSection n)) (baseRotation_of n i))
                 (js_div (anglePerSection n) 2) - (- pi / 2)\<bar> \<le> 1 / 10 ^ 9
       \<and> (\<forall>env now selected. length selected = n \<and> winningIndex env n = i \<longrightarrow>
              baseRotation (make_spin_data env now selected) = baseRotation_of n i
            \<and> preCalculatedWinner (make_spin_data env now selected)
                = Some (sort_games (localeCompare env) selected ! i))"
proof -
  have formula: "baseRotation_of n i
           = js_sub (js_sub (js_div (- Math_PI) 2)
                            (js_mul (real i) (js_div (js_mul 2 Math_PI) (real n))))
                    (js_div (js_div (js_mul 2 Math_PI) (real n)) 2)"
    by (simp add: baseRotation_of_def anglePerSection_def)
  have "Math_PI - 3 / 1000000000000 \<le> pi" and "pi \<le> Math_PI + 3 / 1000000000000"
    using Math_PI_near_pi by simp_all
  then have near: "\<bar>Math_PI - pi\<bar> \<le> 3 / 1000000000000"
    by linarith
  have "\<bar>real i * anglePerSection n + baseRotation_of n i + anglePerSection n / 2
            - (- Math_PI / 2)\<bar> \<le> 52 / 2 ^ 53"
    by (rule rotation_error(1) [OF assms])
  also have "(52::real) / 2 ^ 53 \<le> 1 / 10000000000"
    by simp
  finally have "\<bar>real i * anglePerSection n + baseRotation_of n i + anglePerSection n / 2
            - (- pi / 2)\<bar> \<le> 1 / 1000000000"
    using near by linarith
  then have exact: "\<bar>real i * anglePerSection n + baseRotation_of n i + anglePerSection n / 2
            - (- pi / 2)\<bar> \<le> 1 / 10 ^ 9"
    by simp
  have "\<bar>js_add (js_add (js_mul (real i) (anglePerSection n)) (baseRotation_of n i))
                 (js_div (anglePerSection n) 2) - (- Math_PI / 2)\<bar> \<le> 140 / 2 ^ 53"
    by (rule rotation_error(2) [OF assms])
  also have "(140::real) / 2 ^ 53 \<le> 1 / 10000000000"
    by simp
  finally have "\<bar>js_add (js_add (js_mul (real i) (anglePerSection n)) (baseRotation_of n i))
                 (js_div (anglePerSection n) 2) - (- pi / 2)\<bar> \<le> 1 / 1000000000"
    using near by linarith
  then have rounded: "\<bar>js_add (js_add (js_mul (real i) (anglePerSection n)) (baseRotation_of n i))
                 (js_div (anglePerSection n) 2) - (- pi / 2)\<bar> \<le> 1 / 10 ^ 9"
    by simp
  have against_formula: "\<bar>baseRotation_of n i
                 - (- pi / 2 - real i * (2 * pi / real n) - (2 * pi / real n) / 2)\<bar> \<le> 1 / 10 ^ 9"
  proof -
    define c where "c = 1 / 2 + (2 * real i + 1) / real n"
    have nn: "0 < real n"
      using assms(1) by simp
    have "2 * real i + 1 \<le> 2 * real n"
      using assms(2) by simp
    then have "(2 * real i + 1) / real n \<le> 2"
      using nn by (simp add: field_simps)
    then have c: "0 \<le> c" "c \<le> 3"
      using nn by (simp_all add: c_def)
    have lin: "- P / 2 - real i * (2 * P / real n) - (2 * P / real n) / 2 = - (P * c)" for P :: real
      using nn by (simp add: c_def field_simps)
    have "\<bar>Math_PI * c - pi * c\<bar> = \<bar>(Math_PI - pi) * c\<bar>"
      by (simp only: left_diff_distrib)
    also have "\<dots> = \<bar>Math_PI - pi\<bar> * c"
      using c(1) by (simp add: abs_mult)
    also have "\<dots> \<le> (3 / 1000000000000) * 3"
      using near c by (intro mult_mono) simp_all
    finally have shift: "\<bar>Math_PI * c - pi * c\<bar> \<le> 9 / 1000000000000"
      by simp
    have "\<bar>baseRotation_of n i - (- (Math_PI * c))\<bar> \<le> 78 / 2 ^ 53"
      using rotation_error(3) [OF assms] by (simp only: lin)
    also have "(78::real) / 2 ^ 53 \<le> 1 / 10000000000"
      by simp
    finally have "\<bar>baseRotation_of n i - (- (pi * c))\<bar> \<le> 1 / 1000000000"
      using shift by linarith
    then show ?thesis
      by (simp only: lin) simp
  qed
  have stored: "baseRotation (make_spin_data env now selected) = baseRotation_of n i
            \<and> preCalculatedWinner (make_spin_data env now selected)
                = Some (sort_games (localeCompare env) selected ! i)"
    if "length selected = n" "winningIndex env n = i" for env now selected
  proof -
    have "length (sort_games (localeCompare env) selected) = n"
      using that(1) by (simp add: length_sort_games)
    moreover from this have "sort_games (localeCompare env) selected \<noteq> []"
      using assms by auto
    ultimately show ?thesis
      using that(2) assms by (simp add: make_spin_data_def Let_def nth_opt_def)
  qed
  show ?thesis
    using formula against_formula exact rounded stored by blast
qed

theorem spin_rotation_on_pointer_witness:
  "(0::nat) < 3 \<and> (1::nat) < 3
   \<and> anglePerSection 3 = 4716158501352293 / 2251799813685248
   \<and> baseRotation_of 3 1 = - 2652839157010665 / 562949953421312
   \<and> \<bar>baseRotation_of 3 1
        - (- pi / 2 - real 1 * (2 * pi / real 3) - (2 * pi / real 3) / 2)\<bar> \<le> 1 / 10 ^ 9
   \<and> \<bar>real 1 * anglePerSection 3 + baseRotation_of 3 1 + anglePerSection 3 / 2
        - (- pi / 2)\<bar> \<le> 1 / 10 ^ 9
   \<and> \<bar>js_add (js_add (js_mul (real 1) (anglePerSection 3)) (baseRotation_of 3 1))
             (js_div (anglePerSection 3) 2) - (- pi / 2)\<bar> \<le> 1 / 10 ^ 9"
proof -
  have h1: "(0::nat) < 3" and h2: "(1::nat) < 3"
    by simp_all
  note t = spin_rotation_on_pointer [OF h1 h2]
  have against_formula: "\<bar>baseRotation_of 3 1
        - (- pi / 2 - real 1 * (2 * pi / real 3) - (2 * pi / real 3) / 2)\<bar> \<le> 1 / 10 ^ 9"
    by (rule t [THEN conjunct2, THEN conjunct1])
  have exact: "\<bar>real 1 * anglePerSection 3 + baseRotation_of 3 1 + anglePerSection 3 / 2
        - (- pi / 2)\<bar> \<le> 1 / 10 ^ 9"
    by (rule t [THEN conjunct2, THEN conjunct2, THEN conjunct1])
  have rounded: "\<bar>js_add (js_add (js_mul (real 1) (anglePerSection 3)) (baseRotation_of 3 1))
             (js_div (anglePerSection 3) 2) - (- pi / 2)\<bar> \<le> 1 / 10 ^ 9"
    by (rule t [THEN conjunct2, THEN conjunct2, THEN conjunct2, THEN conjunct1])
  show ?thesis
    using h1 h2 anglePerSection_3 baseRotation_3_1 against_formula exact rounded by blast
qed

subsection \<open>Completing twice\<close>

text \<open>
  C9. A second run of the completion callback right after a first changes nothing: it
  writes nothing and sends nothing. And once a completion has taken effect (the session was
  live and its state spinning with a \<open>spinData\<close>), a second run at any time changes
  nothing, every store staying as the first run left it.
\<close>

theorem completion_idempotent:
  "spin_completion (world_after (spin_completion w t sid)) t sid
     = no_effects (world_after (spin_completion w t sid))
   \<and> (\<forall>s sd t'. getSession w t sid = Some s \<and> isSpinning (current_game_state w t sid s)
            \<and> spinData (current_game_state w t sid s) = Some sd \<longrightarrow>
          spin_completion (world_after (spin_completion w t sid)) t' sid
            = no_effects (world_after (spin_completion w t sid)))"
proof -
  have later: "spin_completion (world_after (spin_completion w t sid)) t' sid
                 = no_effects (world_after (spin_completion w t sid))"
    if "getSession w t sid = Some s" "isSpinning (current_game_state w t sid s)"
       "spinData (current_game_state w t sid s) = Some sd" for s sd t'
  proof -
    have "spin_completion w t sid
            = updateGameStateAndBroadcast w t sid (complete_state (current_game_state w t sid s))"
      using that by (simp add: spin_completion_fires)
    moreover have "\<not> isSpinning (complete_state (current_game_state w t sid s))"
      by (simp add: complete_state_def)
    ultimately show ?thesis
      by (simp add: completion_after_update_idle)
  qed
  have same: "spin_completion (world_after (spin_completion w t sid)) t sid
                = no_effects (world_after (spin_completion w t sid))"
  proof (cases "getSession w t sid")
    case None
    then show ?thesis
      by (simp add: spin_completion_expired no_effects_def)
  next
    case (Some s)
    show ?thesis
    proof (cases "isSpinning (current_game_state w t sid s)
                  \<and> spinData (current_game_state w t sid s) \<noteq> None")
      case True
      then show ?thesis
        using later [OF Some] by auto
    next
      case False
      then have "spin_completion w t sid = no_effects w"
        using Some by (rule spin_completion_idle [rotated])
      then show ?thesis
        by (simp add: no_effects_def)
    qed
  qed
  show ?thesis
    using same later by blast
qed

theorem completion_idempotent_witness:
  "getSession world_spin 5000 ''123456'' \<noteq> None
   \<and> isSpinning (the (fetch_game_state world_spin 5000 ''123456''))
   \<and> spinData (the (fetch_game_state world_spin 5000 ''123456'')) \<noteq> None
   \<and> \<not> isSpinning (the (fetch_game_state
          (world_after (spin_completion world_spin 5000 ''123456'')) 5000 ''123456''))
   \<and> spin_completion (world_after (spin_completion world_spin 5000 ''123456'')) 5000 ''123456''
        = no_effects (world_after (spin_completion world_spin 5000 ''123456''))
   \<and> spin_completion (world_after (spin_completion world_spin 5000 ''123456'')) 6000 ''123456''
        = no_effects (world_after (spin_completion world_spin 5000 ''123456''))"
proof -
  obtain s where s: "getSession world_spin 5000 ''123456'' = Some s"
    by (simp add: sample_defs store_defs handler_defs spin_defs)
  have spinning: "isSpinning (current_game_state world_spin 5000 ''123456'' s)"
    using s by (auto simp add: sample_defs store_defs handler_defs spin_defs)
  obtain sd where sd: "spinData (current_game_state world_spin 5000 ''123456'' s) = Some sd"
    using s by (auto simp add: sample_defs store_defs handler_defs spin_defs)
  have finished: "\<not> isSpinning (the (fetch_game_state
          (world_after (spin_completion world_spin 5000 ''123456'')) 5000 ''123456''))"
    using s spinning sd
    by (simp add: spin_completion_fires fetch_after_update ensure_counts_def complete_state_def)
  show ?thesis
    using completion_idempotent [of world_spin 5000 "''123456''"] s spinning sd finished
    by (simp add: fetch_game_state_def ensure_counts_def)
qed

subsection \<open>The limit that is stored\<close>

text \<open>
  C10. For the creator of a live session, \<open>set_game_limit\<close> stores the limit it is given,
  whatever it is (zero, negative or \<open>null\<close> included); and with a stored limit of 0 an
  \<open>add_game\<close> of a new name is accepted from every member whatever their count: no error
  is sent, the game is appended, and the member's entry in \<open>userGameCounts\<close> is
  incremented as line 277 does it, a number \<open>n\<close> becoming \<open>n + 1\<close> and the missing
  entry of a member whose id names no property of \<open>Object.prototype\<close> becoming 1.
\<close>

theorem game_limit_unvalidated:
  assumes "getSession w now sid = Some s" and "session_users w sid = creator # others"
  shows "fetch_game_state (world_after (set_game_limit w now (Some (sid, creator)) limit)) now sid
           = Some (ensure_counts ((current_game_state w now sid s)\<lparr>gameLimit := limit\<rparr>))
       \<and> (\<forall>gs g uid. fetch_game_state w now sid = Some gs \<and> gameLimit gs = Some 0
               \<and> name g \<notin> name ` set (selectedGames gs) \<longrightarrow>
             replies (game_action env w now (Some (sid, uid)) (Add_game g)) = []
           \<and> fetch_game_state (world_after (game_action env w now (Some (sid, uid)) (Add_game g)))
                 now sid
               = Some (gs\<lparr>selectedGames := selectedGames gs @ [g\<lparr>addedBy := Some uid\<rparr>],
                          userGameCounts := Some (increment_count (counts gs) uid)\<rparr>)
           \<and> (\<forall>n. counts gs uid = Some (Number n) \<longrightarrow>
                 increment_count (counts gs) uid = (counts gs)(uid \<mapsto> Number (n + 1)))
           \<and> (counts gs uid = None \<and> \<not> inherited_key uid \<longrightarrow>
                 increment_count (counts gs) uid = (counts gs)(uid \<mapsto> Number 1)))"
proof -
  have stored: "fetch_game_state (world_after (set_game_limit w now (Some (sid, creator)) limit)) now sid
           = Some (ensure_counts ((current_game_state w now sid s)\<lparr>gameLimit := limit\<rparr>))"
    using assms
    by (simp add: set_game_limit_def getSessionUsers_def fetch_after_update)
  have added: "replies (game_action env w now (Some (sid, uid)) (Add_game g)) = []
           \<and> fetch_game_state (world_after (game_action env w now (Some (sid, uid)) (Add_game g)))
                 now sid
               = Some (gs\<lparr>selectedGames := selectedGames gs @ [g\<lparr>addedBy := Some uid\<rparr>],
                          userGameCounts := Some (increment_count (counts gs) uid)\<rparr>)"
    if "fetch_game_state w now sid = Some gs" "gameLimit gs = Some 0"
       "name g \<notin> name ` set (selectedGames gs)" for gs g uid
    using that assms(1)
    by (simp add: game_action_def add_game_def has_name_iff limit_reached_def
          fetch_after_update ensure_counts_Some)
       (simp add: updateGameStateAndBroadcast_def)
  have next_number: "increment_count m uid = m(uid \<mapsto> Number (n + 1))"
    if "m uid = Some (Number n)" for m :: "user_id \<rightharpoonup> count_value" and uid n
    using that by (simp add: increment_count_def read_count_def)
  have first_number: "increment_count m uid = m(uid \<mapsto> Number 1)"
    if "m uid = None \<and> \<not> inherited_key uid" for m :: "user_id \<rightharpoonup> count_value" and uid
    using that by (simp add: increment_count_def read_count_def inherited_key_def)
  show ?thesis
    using stored added next_number first_number by blast
qed

theorem game_limit_unvalidated_witness:
  "gameLimit (the (fetch_game_state
       (world_after (set_game_limit world_chess 1200 alice (Some 0))) 1200 ''123456'')) = Some 0
   \<and> gameLimit (the (fetch_game_state
       (world_after (set_game_limit world_chess 1200 alice (Some (- 3)))) 1200 ''123456'')) = Some (- 3)
   \<and> counts (the (fetch_game_state world_zero_limit 1200 ''123456'')) ''user-a'' = Some (Number 1)
   \<and> replies (game_action sample_env world_zero_limit 1200 alice (Add_game go)) = []
   \<and> map name (selectedGames (the (fetch_game_state
        (world_after (game_action sample_env world_zero_limit 1200 alice (Add_game go)))
        1200 ''123456''))) = [''Chess'', ''Go'']
   \<and> counts (the (fetch_game_state
        (world_after (game_action sample_env world_zero_limit 1200 alice (Add_game go)))
        1200 ''123456'')) ''user-a'' = Some (Number 2)"
proof -
  obtain s where s: "getSession world_chess 1200 ''123456'' = Some s"
    by (simp add: sample_defs store_defs handler_defs)
  have u: "session_users world_chess ''123456'' = ''user-a'' # [''user-b'']"
    by (simp add: sample_defs store_defs handler_defs)
  obtain s' where s': "getSession world_zero_limit 1200 ''123456'' = Some s'"
    by (simp add: sample_defs world_zero_limit_def set_game_limit_def getSessionUsers_def store_defs handler_defs)
  have u': "session_users world_zero_limit ''123456'' = ''user-a'' # [''user-b'']"
    by (simp add: sample_defs world_zero_limit_def set_game_limit_def getSessionUsers_def store_defs handler_defs)
  let ?gs = "\<lparr>selectedGames = [chess\<lparr>addedBy := Some ''user-a''\<rparr>], isSpinning = False,
             winner = None, spinData = None, gameLimit = Some 0,
             userGameCounts = Some [''user-a'' \<mapsto> Number 1]\<rparr>"
  have f: "fetch_game_state world_zero_limit 1200 ''123456'' = Some ?gs"
    by (simp add: sample_defs world_zero_limit_def set_game_limit_def getSessionUsers_def
          store_defs handler_defs count_defs)
  have fresh: "name go \<notin> name ` set (selectedGames ?gs)"
    by (simp add: go_def chess_def)
  have c: "counts ?gs ''user-a'' = Some (Number 1)"
    by (simp add: counts_def)
  have zero: "gameLimit (the (fetch_game_state
       (world_after (set_game_limit world_chess 1200 alice (Some 0))) 1200 ''123456'')) = Some 0"
    using game_limit_unvalidated [OF s u, of "Some 0" sample_env, THEN conjunct1]
    by (simp add: alice_def ensure_counts_def)
  have negative: "gameLimit (the (fetch_game_state
       (world_after (set_game_limit world_chess 1200 alice (Some (- 3)))) 1200 ''123456''))
         = Some (- 3)"
    using game_limit_unvalidated [OF s u, of "Some (- 3)" sample_env, THEN conjunct1]
    by (simp add: alice_def ensure_counts_def)
  note t = game_limit_unvalidated [OF s' u', of None sample_env, THEN conjunct2, rule_format,
             of ?gs go "''user-a''"]
  have accepted: "replies (game_action sample_env world_zero_limit 1200 alice (Add_game go)) = []"
    using t f fresh by (simp add: alice_def)
  have after: "fetch_game_state
        (world_after (game_action sample_env world_zero_limit 1200 alice (Add_game go)))
        1200 ''123456''
      = Some (?gs\<lparr>selectedGames := selectedGames ?gs @ [go\<lparr>addedBy := Some ''user-a''\<rparr>],
                 userGameCounts := Some ((counts ?gs)(''user-a'' \<mapsto> Number (1 + 1)))\<rparr>)"
    using t f fresh c by (simp add: alice_def)
  have names: "map name (selectedGames (the (fetch_game_state
        (world_after (game_action sample_env world_zero_limit 1200 alice (Add_game go)))
        1200 ''123456''))) = [''Chess'', ''Go'']"
    unfolding after by (simp add: chess_def go_def)
  have count: "counts (the (fetch_game_state
        (world_after (game_action sample_env world_zero_limit 1200 alice (Add_game go)))
        1200 ''123456'')) ''user-a'' = Some (Number 2)"
    unfolding after by (simp add: counts_def)
  show ?thesis
    using zero negative f c accepted names count by simp
qed

end
